theory Spec2Isabelle
  imports Complex_Main
begin

section \<open>Data model (src/types/index.ts)\<close>

text \<open>
  A TypeScript \<open>number\<close> is an IEEE 754 binary64 value. It is modelled as the real
  number it denotes, and every arithmetic operation of the source is the exact operation
  followed by \<open>rd\<close>, rounding to the nearest value with a significand of 53 bits, ties
  to the even significand. Comparisons are exact. The exponent range is not modelled:
  there is no overflow to \<open>Infinity\<close>, no underflow and no \<open>NaN\<close>. The two divisions
  of \<open>updateUserPortfolio\<close> can only divide by zero on an entry whose quantity is not
  positive, and such an entry is dropped by the final \<open>filter\<close> of that function, so
  no result of a division by zero is ever stored.
  A \<open>Date\<close> is a number of milliseconds; every \<open>new Date()\<close> of the source is a
  parameter \<open>now\<close> of the model.
\<close>

type_synonym number = real
type_synonym Date = nat

definition roundEven :: "real \<Rightarrow> int" where
  "roundEven y =
     (let f = \<lfloor>y\<rfloor>; d = y - of_int f
      in if d < 1 / 2 then f else if d > 1 / 2 then f + 1 else if even f then f else f + 1)"

definition exponent :: "real \<Rightarrow> int" where
  "exponent x = \<lfloor>log 2 \<bar>x\<bar>\<rfloor>"

text \<open>The distance of neighbouring binary64 values around \<open>x\<close>.\<close>

definition ulp :: "real \<Rightarrow> real" where
  "ulp x = 2 powr of_int (exponent x - 52)"

definition rd :: "real \<Rightarrow> number" where
  "rd x = (if x = 0 then 0 else of_int (roundEven (x / ulp x)) * ulp x)"

text \<open>The operators \<open>+\<close>, \<open>-\<close>, \<open>*\<close> and \<open>/\<close> of the source.\<close>

definition fadd :: "number \<Rightarrow> number \<Rightarrow> number" where
  "fadd x y = rd (x + y)"

definition fsub :: "number \<Rightarrow> number \<Rightarrow> number" where
  "fsub x y = rd (x - y)"

definition fmul :: "number \<Rightarrow> number \<Rightarrow> number" where
  "fmul x y = rd (x * y)"

definition fdiv :: "number \<Rightarrow> number \<Rightarrow> number" where
  "fdiv x y = rd (x / y)"

datatype OrderType = MARKET | LIMIT

datatype OrderSide = BUY | SELL

datatype OrderStatus = PENDING | EXECUTED | CANCELLED | FAILED

datatype RedemptionStatus =
  RS_PENDING | RS_PROCESSING | RS_SHIPPED | RS_DELIVERED | RS_CANCELLED

text \<open>The string literal type \<open>"buy" | "sell"\<close> of the trading engine's private methods.\<close>

datatype TradeSide = Buy | Sell

text \<open>
  The codes of the \<open>CollectFiError\<close>s the modelled functions throw, and the plain
  \<open>Error\<close> of the external \<open>PublicKey\<close> constructor.
\<close>

datatype CollectFiError =
  ASSET_NOT_FOUND
  | PRICE_EXCEEDED
  | PRICE_TOO_LOW
  | INSUFFICIENT_TOKENS
  | UNAUTHORIZED
  | ORDER_NOT_CANCELLABLE
  | WALLET_NOT_CONNECTED
  | INSUFFICIENT_TOKENS_FOR_REDEMPTION
  | INVALID_REDEMPTION_STATUS
  | REDEMPTION_NOT_CANCELLABLE
  | InvalidPublicKeyInput

record PortfolioAsset =
  assetId :: string
  mint :: string
  quantity :: number
  averagePrice :: number
  currentValue :: number
  pnl :: number
  pnlPercentage :: number

record UserPortfolio =
  userId :: string
  walletAddress :: string
  assets :: "PortfolioAsset list"
  totalValue :: number
  totalValueUSD :: number
  pnl24h :: number
  pnl7d :: number
  pnl30d :: number

record TradingOrder =
  ord_id :: string
  ord_userId :: string
  ord_assetMint :: string
  ord_type :: OrderType
  ord_side :: OrderSide
  ord_quantity :: number
  ord_price :: number
  ord_status :: OrderStatus
  ord_createdAt :: Date
  ord_executedAt :: "Date option"
  ord_txHash :: "string option"

record MarketData =
  md_assetMint :: string
  currentPrice :: number
  priceChange24h :: number
  priceChangePercentage24h :: number
  volume24h :: number
  marketCap :: number
  circulatingSupply :: number
  totalSupply :: number
  high24h :: number
  low24h :: number
  lastUpdated :: Date

record ShippingAddress =
  firstName :: string
  lastName :: string
  address :: string
  city :: string
  state :: string
  zipCode :: string
  country :: string
  phone :: string

record RedemptionRequest =
  rr_id :: string
  rr_userId :: string
  rr_assetMint :: string
  tokenQuantity :: number
  rr_status :: RedemptionStatus
  requestedAt :: Date
  processedAt :: "Date option"
  shippingAddress :: ShippingAddress
  trackingNumber :: "string option"

text \<open>The placeholder instruction of \<open>createBuyInstruction\<close> and \<open>createSellInstruction\<close>.\<close>

record TransactionInstruction =
  keys :: "string list"
  programId :: string
  data :: "nat list"

type_synonym Transaction = "TransactionInstruction list"


section \<open>The trading engine (src/core/TradingEngine.ts)\<close>

text \<open>
  The three private maps of the class. \<open>programKey\<close> is the outcome of the external
  call \<open>new PublicKey(this.config.programId)\<close>: \<open>None\<close> when the constructor of the
  Solana library rejects the configured string.
\<close>

record TradingEngine =
  orders :: "string \<rightharpoonup> TradingOrder"
  portfolios :: "string \<rightharpoonup> UserPortfolio"
  marketDataMap :: "string \<rightharpoonup> MarketData"
  programKey :: "string option"

text \<open>
  A method that may throw returns the thrown error or its result, together with the
  state the engine is left in.
\<close>

type_synonym 'a outcome = "(CollectFiError + 'a) \<times> TradingEngine"

definition newEngine :: "string option \<Rightarrow> TradingEngine" where
  "newEngine pk =
     \<lparr>orders = Map.empty, portfolios = Map.empty, marketDataMap = Map.empty,
      programKey = pk\<rparr>"

definition sampleMarketData :: "Date \<Rightarrow> MarketData list" where
  "sampleMarketData now =
     [\<lparr>md_assetMint = ''ROLEXDAYTONA1mintaddress123456789'', currentPrice = 180,
       priceChange24h = rd (52 / 10), priceChangePercentage24h = rd (36 / 10),
       volume24h = 2800,
       marketCap = 18000000, circulatingSupply = 100000, totalSupply = 100000,
       high24h = 185, low24h = 175, lastUpdated = now\<rparr>,
      \<lparr>md_assetMint = ''ROLEXDAYTONA2mintaddress123456789'', currentPrice = 175,
       priceChange24h = rd (- (21 / 10)), priceChangePercentage24h = rd (- (14 / 10)),
       volume24h = 2200, marketCap = 17500000, circulatingSupply = 100000,
       totalSupply = 100000, high24h = 178, low24h = 172, lastUpdated = now\<rparr>]"

definition initializeMarketData :: "Date \<Rightarrow> TradingEngine \<Rightarrow> TradingEngine" where
  "initializeMarketData now s =
     foldl (\<lambda>t d. t\<lparr>marketDataMap := (marketDataMap t)(md_assetMint d \<mapsto> d)\<rparr>)
       s (sampleMarketData now)"

definition getUserPortfolio :: "TradingEngine \<Rightarrow> string \<Rightarrow> UserPortfolio option" where
  "getUserPortfolio s addr = portfolios s addr"

text \<open>\<open>portfolio?.assets.find((a) => a.mint === assetMint)\<close>\<close>

definition findAsset :: "UserPortfolio option \<Rightarrow> string \<Rightarrow> PortfolioAsset option" where
  "findAsset portfolio assetMint =
     (case portfolio of
        None \<Rightarrow> None
      | Some p \<Rightarrow> find (\<lambda>a. mint a = assetMint) (assets p))"

definition createInstruction :: "TradingEngine \<Rightarrow> TransactionInstruction option" where
  "createInstruction s =
     map_option (\<lambda>k. \<lparr>keys = [], programId = k, data = []\<rparr>) (programKey s)"

definition updateMarketDataAfterTrade ::
  "Date \<Rightarrow> TradingEngine \<Rightarrow> string \<Rightarrow> number \<Rightarrow> TradeSide \<Rightarrow> number \<Rightarrow> TradingEngine"
where
  "updateMarketDataAfterTrade now s assetMint qty side price =
     (case marketDataMap s assetMint of
        None \<Rightarrow> s
      | Some md \<Rightarrow>
          let md1 = md\<lparr>currentPrice := price\<rparr>;
              md2 = (if price > high24h md1 then md1\<lparr>high24h := price\<rparr> else md1);
              md3 = (if price < low24h md2 then md2\<lparr>low24h := price\<rparr> else md2);
              md4 = md3\<lparr>volume24h := fadd (volume24h md3) (fmul qty price)\<rparr>;
              md5 = md4\<lparr>marketCap := fmul price (totalSupply md4)\<rparr>;
              md6 = md5\<lparr>lastUpdated := now\<rparr>
          in s\<lparr>marketDataMap := (marketDataMap s)(assetMint \<mapsto> md6)\<rparr>)"

definition emptyPortfolio :: "string \<Rightarrow> UserPortfolio" where
  "emptyPortfolio addr =
     \<lparr>userId = addr, walletAddress = addr, assets = [], totalValue = 0,
      totalValueUSD = 0, pnl24h = 0, pnl7d = 0, pnl30d = 0\<rparr>"

definition newAsset :: "string \<Rightarrow> PortfolioAsset" where
  "newAsset assetMint =
     \<lparr>assetId = assetMint, mint = assetMint, quantity = 0, averagePrice = 0,
      currentValue = 0, pnl = 0, pnlPercentage = 0\<rparr>"

text \<open>
  The object \<open>find\<close> returned is mutated in place: in the list, the first entry that
  satisfies the predicate is the one that changes.
\<close>

fun modifyFirst :: "('a \<Rightarrow> bool) \<Rightarrow> ('a \<Rightarrow> 'a) \<Rightarrow> 'a list \<Rightarrow> 'a list" where
  "modifyFirst P f [] = []"
| "modifyFirst P f (x # xs) = (if P x then f x # xs else x # modifyFirst P f xs)"

definition applyTrade :: "TradeSide \<Rightarrow> number \<Rightarrow> number \<Rightarrow> PortfolioAsset \<Rightarrow> PortfolioAsset" where
  "applyTrade side qty price asset =
     (if side = Buy then
        let totalCost = fadd (fmul (quantity asset) (averagePrice asset)) (fmul qty price);
            totalQuantity = fadd (quantity asset) qty
        in asset\<lparr>averagePrice := fdiv totalCost totalQuantity, quantity := totalQuantity\<rparr>
      else
        let a1 = asset\<lparr>quantity := fsub (quantity asset) qty\<rparr>
        in if quantity a1 < 0 then a1\<lparr>quantity := 0\<rparr> else a1)"

definition revalue :: "MarketData option \<Rightarrow> PortfolioAsset \<Rightarrow> PortfolioAsset" where
  "revalue marketData asset =
     (case marketData of
        None \<Rightarrow> asset
      | Some md \<Rightarrow>
          let a1 = asset\<lparr>currentValue := fmul (quantity asset) (currentPrice md)\<rparr>;
              a2 = a1\<lparr>pnl := fsub (currentValue a1) (fmul (quantity a1) (averagePrice a1))\<rparr>
          in a2\<lparr>pnlPercentage :=
                  (if averagePrice a2 > 0
                   then fmul (fdiv (pnl a2) (fmul (quantity a2) (averagePrice a2))) 100
                   else 0)\<rparr>)"

definition updateUserPortfolio ::
  "TradingEngine \<Rightarrow> string \<Rightarrow> string \<Rightarrow> number \<Rightarrow> number \<Rightarrow> TradeSide \<Rightarrow> TradingEngine"
where
  "updateUserPortfolio s addr assetMint qty price side =
     (let portfolio =
            (case portfolios s addr of None \<Rightarrow> emptyPortfolio addr | Some p \<Rightarrow> p);
          assets0 =
            (case find (\<lambda>a. mint a = assetMint) (assets portfolio) of
               None \<Rightarrow> assets portfolio @ [newAsset assetMint]
             | Some _ \<Rightarrow> assets portfolio);
          assets1 =
            modifyFirst (\<lambda>a. mint a = assetMint)
              (\<lambda>a. revalue (marketDataMap s assetMint) (applyTrade side qty price a))
              assets0;
          portfolio1 =
            portfolio\<lparr>assets := assets1,
                       totalValue := foldl (\<lambda>sum a. fadd sum (currentValue a)) 0 assets1\<rparr>;
          portfolio2 = portfolio1\<lparr>assets := filter (\<lambda>a. quantity a > 0) assets1\<rparr>
      in s\<lparr>portfolios := (portfolios s)(addr \<mapsto> portfolio2)\<rparr>)"

text \<open>
  \<open>maxPrice\<close> and \<open>minPrice\<close> are optional and tested for truthiness: an absent bound
  and the bound \<open>0\<close> switch the price check off.
\<close>

definition exceeds :: "number \<Rightarrow> number option \<Rightarrow> bool" where
  "exceeds price bound = (case bound of None \<Rightarrow> False | Some b \<Rightarrow> b \<noteq> 0 \<and> price > b)"

definition below :: "number \<Rightarrow> number option \<Rightarrow> bool" where
  "below price bound = (case bound of None \<Rightarrow> False | Some b \<Rightarrow> b \<noteq> 0 \<and> price < b)"

definition buyTokens ::
  "Date \<Rightarrow> TradingEngine \<Rightarrow> string \<Rightarrow> number \<Rightarrow> string \<Rightarrow> number option \<Rightarrow> Transaction outcome"
where
  "buyTokens now s assetMint qty buyer maxPrice =
     (case marketDataMap s assetMint of
        None \<Rightarrow> (Inl ASSET_NOT_FOUND, s)
      | Some md \<Rightarrow>
          if exceeds (currentPrice md) maxPrice then (Inl PRICE_EXCEEDED, s)
          else
            (case createInstruction s of
               None \<Rightarrow> (Inl InvalidPublicKeyInput, s)
             | Some buyInstruction \<Rightarrow>
                 let s1 = updateMarketDataAfterTrade now s assetMint qty Buy (currentPrice md);
                     s2 = updateUserPortfolio s1 buyer assetMint qty (currentPrice md) Buy
                 in (Inr [buyInstruction], s2)))"

definition sellTokens ::
  "Date \<Rightarrow> TradingEngine \<Rightarrow> string \<Rightarrow> number \<Rightarrow> string \<Rightarrow> number option \<Rightarrow> Transaction outcome"
where
  "sellTokens now s assetMint qty seller minPrice =
     (case marketDataMap s assetMint of
        None \<Rightarrow> (Inl ASSET_NOT_FOUND, s)
      | Some md \<Rightarrow>
          if below (currentPrice md) minPrice then (Inl PRICE_TOO_LOW, s)
          else
            (case findAsset (getUserPortfolio s seller) assetMint of
               None \<Rightarrow> (Inl INSUFFICIENT_TOKENS, s)
             | Some asset \<Rightarrow>
                 if quantity asset < qty then (Inl INSUFFICIENT_TOKENS, s)
                 else
                   (case createInstruction s of
                      None \<Rightarrow> (Inl InvalidPublicKeyInput, s)
                    | Some sellInstruction \<Rightarrow>
                        let s1 = updateMarketDataAfterTrade now s assetMint qty Sell
                                   (currentPrice md);
                            s2 = updateUserPortfolio s1 seller assetMint qty
                                   (currentPrice md) Sell
                        in (Inr [sellInstruction], s2))))"

text \<open>
  \<open>generateOrderId\<close> reads the clock and \<open>Math.random\<close>: the identifier it returns is
  the parameter \<open>orderId\<close>.
\<close>

definition placeLimitOrder ::
  "Date \<Rightarrow> string \<Rightarrow> TradingEngine \<Rightarrow> string \<Rightarrow> TradeSide \<Rightarrow> number \<Rightarrow> number \<Rightarrow> string
   \<Rightarrow> string outcome"
where
  "placeLimitOrder now orderId s assetMint side qty price user =
     (let order =
            \<lparr>ord_id = orderId, ord_userId = user, ord_assetMint = assetMint,
             ord_type = LIMIT, ord_side = (if side = Buy then BUY else SELL),
             ord_quantity = qty, ord_price = price, ord_status = PENDING,
             ord_createdAt = now, ord_executedAt = None, ord_txHash = None\<rparr>
      in (Inr orderId, s\<lparr>orders := (orders s)(orderId \<mapsto> order)\<rparr>))"

definition cancelOrder :: "TradingEngine \<Rightarrow> string \<Rightarrow> string \<Rightarrow> bool outcome" where
  "cancelOrder s orderId user =
     (case orders s orderId of
        None \<Rightarrow> (Inr False, s)
      | Some order \<Rightarrow>
          if ord_userId order \<noteq> user then (Inl UNAUTHORIZED, s)
          else if ord_status order \<noteq> PENDING then (Inl ORDER_NOT_CANCELLABLE, s)
          else
            (Inr True,
             s\<lparr>orders := (orders s)(orderId \<mapsto> order\<lparr>ord_status := CANCELLED\<rparr>)\<rparr>))"


section \<open>The vault manager (VaultManager.ts)\<close>

text \<open>
  Of the three maps of the class only \<open>redemptionRequests\<close> is read or written by the
  redemption methods. \<open>generateRedemptionId\<close> reads the clock and \<open>Math.random\<close>: the
  identifier it returns is the parameter \<open>requestId\<close>.
\<close>

record VaultManager =
  redemptionRequests :: "string \<rightharpoonup> RedemptionRequest"

definition newVault :: VaultManager where
  "newVault = \<lparr>redemptionRequests = Map.empty\<rparr>"

definition vaultRequestRedemption ::
  "Date \<Rightarrow> string \<Rightarrow> VaultManager \<Rightarrow> string \<Rightarrow> string \<Rightarrow> ShippingAddress
   \<Rightarrow> string \<times> VaultManager"
where
  "vaultRequestRedemption now requestId v assetMint user addr =
     (let redemptionRequest =
            \<lparr>rr_id = requestId, rr_userId = user, rr_assetMint = assetMint,
             tokenQuantity = 100000, rr_status = RS_PENDING, requestedAt = now,
             processedAt = None, shippingAddress = addr, trackingNumber = None\<rparr>
      in (requestId,
          v\<lparr>redemptionRequests := (redemptionRequests v)(requestId \<mapsto> redemptionRequest)\<rparr>))"

definition getRedemptionRequest :: "VaultManager \<Rightarrow> string \<Rightarrow> RedemptionRequest option" where
  "getRedemptionRequest v requestId = redemptionRequests v requestId"

text \<open>A tracking number is used when it is truthy: present and not the empty string.\<close>

definition truthyString :: "string option \<Rightarrow> bool" where
  "truthyString x = (case x of None \<Rightarrow> False | Some t \<Rightarrow> t \<noteq> [])"

definition updateRedemptionStatus ::
  "Date \<Rightarrow> VaultManager \<Rightarrow> string \<Rightarrow> RedemptionStatus \<Rightarrow> string option
   \<Rightarrow> bool \<times> VaultManager"
where
  "updateRedemptionStatus now v requestId status tracking =
     (case redemptionRequests v requestId of
        None \<Rightarrow> (False, v)
      | Some request \<Rightarrow>
          let r1 = request\<lparr>rr_status := status\<rparr>;
              r2 = (if status = RS_SHIPPED \<and> truthyString tracking
                    then r1\<lparr>trackingNumber := tracking\<rparr> else r1);
              r3 = (if status = RS_PROCESSING then r2\<lparr>processedAt := Some now\<rparr> else r2)
          in (True, v\<lparr>redemptionRequests := (redemptionRequests v)(requestId \<mapsto> r3)\<rparr>))"

type_synonym 'a vault_outcome = "(CollectFiError + 'a) \<times> VaultManager"

definition processRedemption :: "Date \<Rightarrow> VaultManager \<Rightarrow> string \<Rightarrow> bool vault_outcome" where
  "processRedemption now v requestId =
     (case redemptionRequests v requestId of
        None \<Rightarrow> (Inr False, v)
      | Some request \<Rightarrow>
          if rr_status request \<noteq> RS_PENDING then (Inl INVALID_REDEMPTION_STATUS, v)
          else (Inr True, snd (updateRedemptionStatus now v requestId RS_PROCESSING None)))"

definition shipRedemption ::
  "Date \<Rightarrow> VaultManager \<Rightarrow> string \<Rightarrow> string \<Rightarrow> bool vault_outcome"
where
  "shipRedemption now v requestId tracking =
     (case redemptionRequests v requestId of
        None \<Rightarrow> (Inr False, v)
      | Some request \<Rightarrow>
          if rr_status request \<noteq> RS_PROCESSING then (Inl INVALID_REDEMPTION_STATUS, v)
          else
            (Inr True,
             snd (updateRedemptionStatus now v requestId RS_SHIPPED (Some tracking))))"

definition markRedemptionDelivered :: "Date \<Rightarrow> VaultManager \<Rightarrow> string \<Rightarrow> bool vault_outcome" where
  "markRedemptionDelivered now v requestId =
     (case redemptionRequests v requestId of
        None \<Rightarrow> (Inr False, v)
      | Some request \<Rightarrow>
          if rr_status request \<noteq> RS_SHIPPED then (Inl INVALID_REDEMPTION_STATUS, v)
          else (Inr True, snd (updateRedemptionStatus now v requestId RS_DELIVERED None)))"

definition cancelRedemption ::
  "Date \<Rightarrow> VaultManager \<Rightarrow> string \<Rightarrow> string \<Rightarrow> bool vault_outcome"
where
  "cancelRedemption now v requestId user =
     (case redemptionRequests v requestId of
        None \<Rightarrow> (Inr False, v)
      | Some request \<Rightarrow>
          if rr_userId request \<noteq> user then (Inl UNAUTHORIZED, v)
          else if rr_status request \<noteq> RS_PENDING then (Inl REDEMPTION_NOT_CANCELLABLE, v)
          else (Inr True, snd (updateRedemptionStatus now v requestId RS_CANCELLED None)))"


section \<open>The status route (src/routes/vault.ts)\<close>

text \<open>
  \<open>PUT /api/vault/redemption/:requestId/status\<close>. A response is its HTTP status and
  the \<open>code\<close> of its body (\<open>OK\<close> for the success body, which has none).
\<close>

definition validStatuses :: "string list" where
  "validStatuses = [''processing'', ''shipped'', ''delivered'', ''cancelled'']"

text \<open>The member of the string enum \<open>RedemptionStatus\<close> a valid status string is.\<close>

definition statusOfString :: "string \<Rightarrow> RedemptionStatus option" where
  "statusOfString str =
     (if str \<notin> set validStatuses then None
      else if str = ''processing'' then Some RS_PROCESSING
      else if str = ''shipped'' then Some RS_SHIPPED
      else if str = ''delivered'' then Some RS_DELIVERED
      else Some RS_CANCELLED)"

definition hasPermission :: "string list option \<Rightarrow> string \<Rightarrow> bool" where
  "hasPermission permissions p = (case permissions of None \<Rightarrow> False | Some ps \<Rightarrow> p \<in> set ps)"

definition respond :: "bool vault_outcome \<Rightarrow> (nat \<times> string) \<times> VaultManager" where
  "respond r =
     (case fst r of
        Inl _ \<Rightarrow> ((400, ''STATUS_UPDATE_FAILED''), snd r)
      | Inr updated \<Rightarrow>
          if \<not> updated then ((404, ''REDEMPTION_REQUEST_NOT_FOUND''), snd r)
          else ((200, ''OK''), snd r))"

definition putRedemptionStatus ::
  "Date \<Rightarrow> VaultManager \<Rightarrow> string list option \<Rightarrow> string \<Rightarrow> string \<Rightarrow> string option
   \<Rightarrow> (nat \<times> string) \<times> VaultManager"
where
  "putRedemptionStatus now v permissions requestId status tracking =
     (if \<not> hasPermission permissions ''*'' \<and> \<not> hasPermission permissions ''admin:redemption''
      then ((403, ''INSUFFICIENT_PERMISSIONS''), v)
      else
        (case statusOfString status of
           None \<Rightarrow> ((400, ''INVALID_STATUS''), v)
         | Some st \<Rightarrow>
             if st = RS_SHIPPED \<and> truthyString tracking
             then respond (shipRedemption now v requestId
                             (case tracking of Some t \<Rightarrow> t | None \<Rightarrow> []))
             else if st = RS_DELIVERED
             then respond (markRedemptionDelivered now v requestId)
             else
               (case updateRedemptionStatus now v requestId st None of
                  (updated, v') \<Rightarrow> respond (Inr updated, v'))))"


section \<open>The platform class (src/core/CollectFi.ts)\<close>

text \<open>
  The managers and the wallet the modelled methods of the class use; the asset manager,
  which they do not touch, is modelled on its own below.
\<close>

record Wallet =
  publicKey :: "string option"
  connected :: bool

record CollectFi =
  tradingEngine :: TradingEngine
  vaultManager :: VaultManager
  wallet :: Wallet

text \<open>
  \<open>isConnected()\<close> is \<open>this.connected && this.publicKey !== null\<close>; the key of a
  connected wallet is the account.
\<close>

definition connectedAccount :: "Wallet \<Rightarrow> string option" where
  "connectedAccount w = (if connected w then publicKey w else None)"

definition requestRedemption ::
  "Date \<Rightarrow> string \<Rightarrow> CollectFi \<Rightarrow> string \<Rightarrow> ShippingAddress
   \<Rightarrow> (CollectFiError + string) \<times> CollectFi"
where
  "requestRedemption now requestId c assetMint addr =
     (case connectedAccount (wallet c) of
        None \<Rightarrow> (Inl WALLET_NOT_CONNECTED, c)
      | Some account \<Rightarrow>
          (case findAsset (getUserPortfolio (tradingEngine c) account) assetMint of
             None \<Rightarrow> (Inl INSUFFICIENT_TOKENS_FOR_REDEMPTION, c)
           | Some asset \<Rightarrow>
               if quantity asset < 100000 then (Inl INSUFFICIENT_TOKENS_FOR_REDEMPTION, c)
               else
                 (case vaultRequestRedemption now requestId (vaultManager c) assetMint
                         account addr of
                    (rid, v') \<Rightarrow> (Inr rid, c\<lparr>vaultManager := v'\<rparr>))))"

definition platformBuyTokens ::
  "Date \<Rightarrow> CollectFi \<Rightarrow> string \<Rightarrow> number \<Rightarrow> number option
   \<Rightarrow> (CollectFiError + Transaction) \<times> CollectFi"
where
  "platformBuyTokens now c assetMint qty maxPrice =
     (case connectedAccount (wallet c) of
        None \<Rightarrow> (Inl WALLET_NOT_CONNECTED, c)
      | Some account \<Rightarrow>
          (case buyTokens now (tradingEngine c) assetMint qty account maxPrice of
             (r, e') \<Rightarrow> (r, c\<lparr>tradingEngine := e'\<rparr>)))"


section \<open>The asset manager (src/core/AssetManager.ts)\<close>

text \<open>
  The class stores every asset object under two keys (its id and its mint) and shares
  the history array of an asset with the \<open>priceHistory\<close> map, so objects and arrays
  live in an explicit store: \<open>assetsMap\<close> and \<open>priceHistoryMap\<close> hold addresses.
  The descriptive fields of an asset that no modelled method reads (description,
  category, authentication, storage, insurance, metadata) are the field \<open>ca_details\<close>.
  Every address \<open>addAsset\<close> stores in \<open>assetsMap\<close> has an object, so the branch of
  \<open>updateAssetPrice\<close> for an address without one is never taken.
\<close>

record PricePoint =
  pp_timestamp :: Date
  pp_price :: number
  pp_volume :: number
  pp_marketCap :: number

record 'd CollectibleAsset =
  ca_id :: string
  ca_name :: string
  ca_mint :: string
  ca_totalSupply :: number
  ca_circulatingSupply :: number
  ca_currentPrice :: number
  ca_priceHistory :: nat
  ca_createdAt :: Date
  ca_updatedAt :: Date
  ca_details :: 'd

text \<open>The argument of \<open>addAsset\<close>: an asset without id and dates, its history by value.\<close>

record 'd AssetInput =
  in_name :: string
  in_mint :: string
  in_totalSupply :: number
  in_circulatingSupply :: number
  in_currentPrice :: number
  in_priceHistory :: "PricePoint list"
  in_details :: 'd

record 'd AssetManager =
  assetsMap :: "string \<rightharpoonup> nat"
  priceHistoryMap :: "string \<rightharpoonup> nat"
  objects :: "nat \<rightharpoonup> 'd CollectibleAsset"
  arrays :: "nat \<Rightarrow> PricePoint list"
  nextObject :: nat
  nextArray :: nat

definition newAssetManager :: "'d AssetManager" where
  "newAssetManager =
     \<lparr>assetsMap = Map.empty, priceHistoryMap = Map.empty, objects = Map.empty,
      arrays = (\<lambda>_. []), nextObject = 0, nextArray = 0\<rparr>"

fun showNat :: "nat \<Rightarrow> string" where
  "showNat n =
     (if n < 10 then [char_of (48 + n)]
      else showNat (n div 10) @ [char_of (48 + n mod 10)])"

text \<open>
  \<open>name.toLowerCase().replace(/[^a-z0-9]/g, "-")\<close> on one character of an ASCII
  string.
\<close>

definition baseIdChar :: "char \<Rightarrow> char" where
  "baseIdChar c =
     (let n = (of_char c :: nat) in
      if 65 \<le> n \<and> n \<le> 90 then char_of (n + 32)
      else if (97 \<le> n \<and> n \<le> 122) \<or> (48 \<le> n \<and> n \<le> 57) then c
      else CHR ''-'')"

definition generateAssetId :: "Date \<Rightarrow> string \<Rightarrow> string" where
  "generateAssetId now name = map baseIdChar name @ ''-'' @ showNat now"

definition addAsset :: "Date \<Rightarrow> 'd AssetManager \<Rightarrow> 'd AssetInput \<Rightarrow> string \<times> 'd AssetManager" where
  "addAsset now a asset =
     (let newId = generateAssetId now (in_name asset);
          given = nextArray a;
          fresh = Suc (nextArray a);
          r = nextObject a;
          newAsset =
            \<lparr>ca_id = newId, ca_name = in_name asset, ca_mint = in_mint asset,
             ca_totalSupply = in_totalSupply asset,
             ca_circulatingSupply = in_circulatingSupply asset,
             ca_currentPrice = in_currentPrice asset, ca_priceHistory = given,
             ca_createdAt = now, ca_updatedAt = now, ca_details = in_details asset\<rparr>
      in (newId,
          a\<lparr>assetsMap := (assetsMap a)(newId \<mapsto> r, in_mint asset \<mapsto> r),
            priceHistoryMap := (priceHistoryMap a)(in_mint asset \<mapsto> fresh),
            objects := (objects a)(r \<mapsto> newAsset),
            arrays := (arrays a)(given := in_priceHistory asset, fresh := []),
            nextObject := Suc r,
            nextArray := Suc fresh\<rparr>))"

definition getAssetByMint :: "'d AssetManager \<Rightarrow> string \<Rightarrow> 'd CollectibleAsset option" where
  "getAssetByMint a key = Option.bind (assetsMap a key) (objects a)"

definition historyOf :: "'d AssetManager \<Rightarrow> 'd CollectibleAsset \<Rightarrow> PricePoint list" where
  "historyOf a asset = arrays a (ca_priceHistory asset)"

definition updateAssetPrice :: "Date \<Rightarrow> 'd AssetManager \<Rightarrow> string \<Rightarrow> number \<Rightarrow> 'd AssetManager" where
  "updateAssetPrice now a assetMint newPrice =
     (case assetsMap a assetMint of
        None \<Rightarrow> a
      | Some r \<Rightarrow>
          (case objects a r of
             None \<Rightarrow> a
           | Some asset \<Rightarrow>
               let newPricePoint =
                     \<lparr>pp_timestamp = now, pp_price = newPrice, pp_volume = 0,
                      pp_marketCap = fmul newPrice (ca_totalSupply asset)\<rparr>;
                   h = ca_priceHistory asset;
                   pushed = arrays a h @ [newPricePoint];
                   a1 = a\<lparr>arrays := (arrays a)(h := pushed)\<rparr>;
                   asset1 = asset\<lparr>ca_currentPrice := newPrice, ca_updatedAt := now\<rparr>;
                   (asset2, a2) =
                     (if length pushed > 1000
                      then (asset1\<lparr>ca_priceHistory := nextArray a1\<rparr>,
                            a1\<lparr>arrays := (arrays a1)
                                   (nextArray a1 := drop (length pushed - 1000) pushed),
                               nextArray := Suc (nextArray a1)\<rparr>)
                      else (asset1, a1))
               in a2\<lparr>priceHistoryMap :=
                       (priceHistoryMap a2)(assetMint \<mapsto> ca_priceHistory asset2),
                     objects := (objects a2)(r \<mapsto> asset2)\<rparr>))"


text \<open>The market cap of the newest price point of the asset stored under a key.\<close>

definition lastMarketCap :: "'d AssetManager \<Rightarrow> string \<Rightarrow> number option" where
  "lastMarketCap a key =
     (case getAssetByMint a key of
        None \<Rightarrow> None
      | Some asset \<Rightarrow>
          (case rev (historyOf a asset) of
             [] \<Rightarrow> None
           | point # _ \<Rightarrow> Some (pp_marketCap point)))"


section \<open>Positions and fill sequences\<close>

text \<open>
  The position \<open>updateUserPortfolio\<close> works on: the entry \<open>find\<close> returns, or the zero
  entry the function creates when there is none.
\<close>

definition positionOrNew :: "TradingEngine \<Rightarrow> string \<Rightarrow> string \<Rightarrow> PortfolioAsset" where
  "positionOrNew s addr assetMint =
     (case findAsset (getUserPortfolio s addr) assetMint of
        None \<Rightarrow> newAsset assetMint
      | Some a \<Rightarrow> a)"

text \<open>
  \<open>updateUserPortfolio\<close> pushes an entry only when \<open>find\<close> found none, so a stored
  portfolio never holds two entries of one mint (\<open>distinctMints_preserved\<close> below).
\<close>

definition distinctMints :: "UserPortfolio option \<Rightarrow> bool" where
  "distinctMints portfolio =
     (case portfolio of None \<Rightarrow> True | Some p \<Rightarrow> distinct (map mint (assets p)))"

definition positiveEntries :: "UserPortfolio option \<Rightarrow> bool" where
  "positiveEntries portfolio =
     (case portfolio of None \<Rightarrow> True | Some p \<Rightarrow> list_all (\<lambda>a. 0 < quantity a) (assets p))"

text \<open>
  The states the engine can be in: the constructed engine, and every state a public
  method leaves behind, whether it returned or threw.
\<close>

inductive reachable :: "TradingEngine \<Rightarrow> bool" where
  constructed: "reachable (newEngine pk)"
| initialized: "reachable s \<Longrightarrow> reachable (initializeMarketData now s)"
| buy: "reachable s \<Longrightarrow> reachable (snd (buyTokens now s m qty buyer maxPrice))"
| sell: "reachable s \<Longrightarrow> reachable (snd (sellTokens now s m qty seller minPrice))"
| place: "reachable s \<Longrightarrow> reachable (snd (placeLimitOrder now orderId s m side qty price user))"
| cancel: "reachable s \<Longrightarrow> reachable (snd (cancelOrder s orderId user))"

text \<open>
  A fill is a side, a quantity and a price; \<open>applyFills\<close> applies a sequence of fills to
  one account and asset and lists the state after every step.
\<close>

type_synonym fill = "TradeSide \<times> number \<times> number"

fun applyFills :: "TradingEngine \<Rightarrow> string \<Rightarrow> string \<Rightarrow> fill list \<Rightarrow> TradingEngine list" where
  "applyFills s addr assetMint [] = []"
| "applyFills s addr assetMint ((side, qty, price) # fs) =
     (let s' = updateUserPortfolio s addr assetMint qty price side
      in s' # applyFills s' addr assetMint fs)"


section \<open>Example states\<close>

definition aliceHolds100 :: TradingEngine where
  "aliceHolds100 = updateUserPortfolio (newEngine None) ''alice'' ''M'' 100 180 Buy"

definition aliceHoldsTwo :: TradingEngine where
  "aliceHoldsTwo = updateUserPortfolio aliceHolds100 ''alice'' ''N'' 30 20 Buy"

definition exampleFills :: "fill list" where
  "exampleFills = [(Buy, 100, 180), (Sell, 150, 170), (Buy, 30, 10)]"

definition bobHolds1 :: TradingEngine where
  "bobHolds1 = updateUserPortfolio (newEngine None) ''bob'' ''M'' 1 1 Buy"

definition bobHoldsMany :: TradingEngine where
  "bobHoldsMany = updateUserPortfolio (newEngine None) ''bob'' ''M'' 9007199254740992 1 Buy"

definition afterOverSell :: TradingEngine where
  "afterOverSell = updateUserPortfolio aliceHolds100 ''alice'' ''M'' 150 170 Sell"

definition rolex1 :: string where
  "rolex1 = ''ROLEXDAYTONA1mintaddress123456789''"

definition initialEngine :: TradingEngine where
  "initialEngine = initializeMarketData 0 (newEngine (Some ''P''))"

definition buyerA :: TradingEngine where
  "buyerA = snd (buyTokens 1 initialEngine rolex1 250 ''A'' (Some 200))"

definition pendingOrderState :: TradingEngine where
  "pendingOrderState =
     snd (placeLimitOrder 1 ''o1'' (newEngine None) ''M'' Buy 10 5 ''alice'')"

definition cancelledOrderState :: TradingEngine where
  "cancelledOrderState = snd (cancelOrder pendingOrderState ''o1'' ''alice'')"

definition someAddress :: ShippingAddress where
  "someAddress =
     \<lparr>firstName = ''A'', lastName = ''B'', address = ''1 Main St'', city = ''Dover'',
      state = ''DE'', zipCode = ''19901'', country = ''US'', phone = ''555''\<rparr>"

definition platform0 :: CollectFi where
  "platform0 =
     \<lparr>tradingEngine = initialEngine, vaultManager = newVault,
      wallet = \<lparr>publicKey = Some ''alice'', connected = True\<rparr>\<rparr>"

definition holder :: "number \<Rightarrow> CollectFi" where
  "holder qty = snd (platformBuyTokens 1 platform0 rolex1 qty None)"

definition pendingVault :: VaultManager where
  "pendingVault =
     vaultManager (snd (requestRedemption 2 ''r1'' (holder 100000) rolex1 someAddress))"

definition processingVault :: VaultManager where
  "processingVault =
     snd (putRedemptionStatus 3 pendingVault (Some [''admin:redemption'']) ''r1''
            ''processing'' None)"

definition partlyCirculating :: "unit AssetInput" where
  "partlyCirculating =
     \<lparr>in_name = ''Test Card'', in_mint = ''TestMint'', in_totalSupply = 100000,
      in_circulatingSupply = 60000, in_currentPrice = 100, in_priceHistory = [],
      in_details = ()\<rparr>"

definition managerWithAsset :: "unit AssetManager" where
  "managerWithAsset = snd (addAsset 1000 newAssetManager partlyCirculating)"


section \<open>Rounding\<close>

text \<open>
  Rounding keeps the sign, and keeps every value that has a significand of 53 bits, the
  integers below \<open>2 ^ 53\<close> among them.
\<close>

lemma ulp_pos: "0 < ulp x"
  by (simp add: ulp_def)

lemma roundEven_of_int: "roundEven (of_int k) = k"
  by (simp add: roundEven_def)

lemma roundEven_ge_floor: "\<lfloor>y\<rfloor> \<le> roundEven y"
  by (simp add: roundEven_def Let_def)

lemma roundEven_le_ceiling: "roundEven y \<le> \<lceil>y\<rceil>"
proof (cases "y = of_int \<lfloor>y\<rfloor>")
  case True
  then have "roundEven y = \<lfloor>y\<rfloor>"
    by (metis roundEven_of_int)
  then show ?thesis by (simp add: floor_le_ceiling)
next
  case False
  then have "\<lceil>y\<rceil> = \<lfloor>y\<rfloor> + 1"
    by (metis ceiling_altdef)
  then show ?thesis by (simp add: roundEven_def Let_def)
qed

lemma scaled_bounds:
  assumes "x \<noteq> 0"
  shows "2 ^ 52 \<le> \<bar>x\<bar> / ulp x" and "\<bar>x\<bar> / ulp x < 2 ^ 53"
proof -
  have pos: "0 < \<bar>x\<bar>" using assms by simp
  have "\<lfloor>log 2 \<bar>x\<bar>\<rfloor> = exponent x" by (simp add: exponent_def)
  then have b: "2 powr of_int (exponent x) \<le> \<bar>x\<bar>"
    and c: "\<bar>x\<bar> < 2 powr of_int (exponent x + 1)"
    using floor_log_eq_powr_iff[OF pos, of 2 "exponent x"] by simp_all
  have u: "ulp x = 2 powr of_int (exponent x) / 2 ^ 52"
    by (simp add: ulp_def powr_diff)
  have "2 powr of_int (exponent x) / ulp x = 2 ^ 52"
    by (simp add: u)
  moreover have "2 powr of_int (exponent x) / ulp x \<le> \<bar>x\<bar> / ulp x"
    using b ulp_pos[of x] by (simp add: divide_right_mono)
  ultimately show "2 ^ 52 \<le> \<bar>x\<bar> / ulp x" by simp
  have "2 powr of_int (exponent x + 1) / ulp x = 2 ^ 53"
    by (simp add: u powr_add)
  moreover have "\<bar>x\<bar> / ulp x < 2 powr of_int (exponent x + 1) / ulp x"
    using c ulp_pos[of x] by (simp add: divide_strict_right_mono)
  ultimately show "\<bar>x\<bar> / ulp x < 2 ^ 53" by simp
qed

lemma rd_pos: assumes "0 < x" shows "0 < rd x"
proof -
  have "2 ^ 52 \<le> x / ulp x" using scaled_bounds(1)[of x] assms by simp
  then have "(1::real) \<le> x / ulp x" by simp
  then have "1 \<le> \<lfloor>x / ulp x\<rfloor>" by linarith
  then have "0 < roundEven (x / ulp x)"
    using roundEven_ge_floor[of "x / ulp x"] by linarith
  then show ?thesis
    using assms ulp_pos[of x] by (simp add: rd_def)
qed

lemma rd_neg: assumes "x < 0" shows "rd x < 0"
proof -
  have "2 ^ 52 \<le> - x / ulp x" using scaled_bounds(1)[of x] assms by simp
  then have "x / ulp x \<le> - 1" by simp
  then have "\<lceil>x / ulp x\<rceil> \<le> - 1" by (simp add: ceiling_le_iff)
  then have "roundEven (x / ulp x) < 0"
    using roundEven_le_ceiling[of "x / ulp x"] by linarith
  then show ?thesis
    using assms ulp_pos[of x] by (simp add: rd_def mult_neg_pos)
qed

lemma rd_zero [simp]: "rd 0 = 0"
  by (simp add: rd_def)

lemma rd_pos_iff [simp]: "0 < rd x \<longleftrightarrow> 0 < x"
proof (cases "x = 0")
  case True
  then show ?thesis by simp
next
  case False
  then consider "0 < x" | "x < 0" by linarith
  then show ?thesis
  proof cases
    case 1
    with rd_pos[of x] show ?thesis by simp
  next
    case 2
    with rd_neg[of x] show ?thesis by simp
  qed
qed

lemma rd_neg_iff [simp]: "rd x < 0 \<longleftrightarrow> x < 0"
proof (cases "x = 0")
  case True
  then show ?thesis by simp
next
  case False
  then consider "0 < x" | "x < 0" by linarith
  then show ?thesis
  proof cases
    case 1
    then have "0 < rd x" by simp
    with 1 show ?thesis by linarith
  next
    case 2
    with rd_neg[of x] show ?thesis by simp
  qed
qed

lemma rd_exact:
  assumes "x = of_int m * 2 powr of_int k" and "\<bar>m\<bar> < 2 ^ 53"
  shows "rd x = x"
proof (cases "m = 0")
  case True
  with assms show ?thesis by simp
next
  case False
  then have x0: "x \<noteq> 0" using assms(1) by simp
  have pos: "0 < \<bar>x\<bar>" using x0 by simp
  have "\<bar>x\<bar> = of_int \<bar>m\<bar> * 2 powr of_int k"
    by (simp add: assms(1) abs_mult)
  also have "\<dots> < 2 ^ 53 * 2 powr of_int k"
  proof -
    have "(of_int \<bar>m\<bar> :: real) < of_int (2 ^ 53)" using assms(2) by (simp only: of_int_less_iff)
    then show ?thesis by simp
  qed
  also have "\<dots> = 2 powr of_int (k + 53)"
    by (simp add: powr_add)
  finally have "log 2 \<bar>x\<bar> < of_int (k + 53)"
    using pos by (simp add: log_less_iff)
  then have "exponent x < k + 53"
    unfolding exponent_def by (simp add: floor_less_iff)
  then have "0 \<le> k - exponent x + 52" by linarith
  then obtain n :: nat where n: "k - exponent x + 52 = int n"
    using zero_le_imp_eq_int by blast
  have "x / ulp x = of_int m * 2 powr of_int (k - (exponent x - 52))"
    by (simp add: assms(1) ulp_def powr_diff)
  also have "k - (exponent x - 52) = int n" using n by simp
  also have "of_int m * 2 powr of_int (int n) = (of_int (m * 2 ^ n) :: real)"
    by (simp add: powr_realpow)
  finally have s: "x / ulp x = of_int (m * 2 ^ n)" .
  have "rd x = of_int (m * 2 ^ n) * ulp x"
    using x0 by (simp only: rd_def s roundEven_of_int if_False)
  also have "\<dots> = (x / ulp x) * ulp x" by (simp only: s)
  also have "\<dots> = x" using ulp_pos[of x] by simp
  finally show ?thesis .
qed

lemma rd_of_int: "\<bar>m\<bar> < 2 ^ 53 \<Longrightarrow> rd (of_int m) = of_int m"
  using rd_exact[of "of_int m" m 0] by simp

lemma rd_numeral [simp]:
  "(numeral n :: int) < 9007199254740992 \<Longrightarrow> rd (numeral n) = numeral n"
  using rd_of_int[of "numeral n"] by simp

lemma rd_one [simp]: "rd 1 = 1"
  using rd_of_int[of 1] by simp

lemma exponent_eq:
  "x \<noteq> 0 \<Longrightarrow> 2 powr of_int k \<le> \<bar>x\<bar> \<Longrightarrow> \<bar>x\<bar> < 2 powr of_int (k + 1) \<Longrightarrow> exponent x = k"
  unfolding exponent_def by (simp add: floor_log_eq_powr_iff)

lemma roundEven_up: "1 / 2 < y - of_int \<lfloor>y\<rfloor> \<Longrightarrow> roundEven y = \<lfloor>y\<rfloor> + 1"
  by (simp add: roundEven_def Let_def)

lemma roundEven_tie:
  "y - of_int \<lfloor>y\<rfloor> = 1 / 2 \<Longrightarrow> roundEven y = (if even \<lfloor>y\<rfloor> then \<lfloor>y\<rfloor> else \<lfloor>y\<rfloor> + 1)"
  by (simp add: roundEven_def Let_def)

lemma rd_five_thirds: "rd (5 / 3) = 7505999378950827 / 4503599627370496"
proof -
  have e: "exponent (5 / 3) = 0"
    by (rule exponent_eq) simp_all
  have u: "ulp (5 / 3) = 1 / 4503599627370496"
    by (simp add: ulp_def e powr_minus_divide)
  have a: "(5 / 3 :: real) / (1 / 4503599627370496) = 22517998136852480 / 3"
    by simp
  have f: "\<lfloor>22517998136852480 / 3 :: real\<rfloor> = 7505999378950826"
    by (rule floor_unique) simp_all
  have g: "(1 :: real) / 2 < 22517998136852480 / 3 - of_int 7505999378950826"
    by simp
  have r: "roundEven (22517998136852480 / 3) = 7505999378950826 + 1"
    using roundEven_up[of "22517998136852480 / 3", unfolded f, OF g] .
  have "rd (5 / 3) = of_int (7505999378950826 + 1) * (1 / 4503599627370496)"
    unfolding rd_def u a r by simp
  then show ?thesis by simp
qed

lemma rd_2_53 [simp]: "rd 9007199254740992 = 9007199254740992"
  using rd_exact[of 9007199254740992 1 53] by simp

lemma rd_2_53_plus_1: "rd 9007199254740993 = 9007199254740992"
proof -
  have e: "exponent 9007199254740993 = 53"
    by (rule exponent_eq) simp_all
  have u: "ulp 9007199254740993 = 2"
    by (simp add: ulp_def e)
  have f: "\<lfloor>9007199254740993 / 2 :: real\<rfloor> = 4503599627370496"
    by (rule floor_unique) simp_all
  have g: "9007199254740993 / 2 - of_int 4503599627370496 = (1 :: real) / 2"
    by simp
  have r: "roundEven (9007199254740993 / 2) = 4503599627370496"
    using roundEven_tie[of "9007199254740993 / 2", unfolded f, OF g] by simp
  have "rd 9007199254740993 = of_int 4503599627370496 * 2"
    unfolding rd_def u r by simp
  then show ?thesis by simp
qed

section \<open>Lists: the first match, before and after a filter\<close>

lemma find_modifyFirst:
  "(\<And>x. P x \<Longrightarrow> P (f x)) \<Longrightarrow> find P (modifyFirst P f xs) = map_option f (find P xs)"
  by (induction xs) auto

lemma map_modifyFirst:
  "(\<And>x. g (f x) = g x) \<Longrightarrow> map g (modifyFirst P f xs) = map g xs"
  by (induction xs) auto

lemma find_append_new:
  "find P xs = None \<Longrightarrow> find P (xs @ [y]) = (if P y then Some y else None)"
  by (induction xs) (auto split: if_splits)

lemma find_filter_keep:
  "find P xs = Some x \<Longrightarrow> Q x \<Longrightarrow> find P (filter Q xs) = Some x"
  by (induction xs) (auto split: if_splits)

lemma find_None_iff_mint:
  "find (\<lambda>a. mint a = m) xs = None \<longleftrightarrow> m \<notin> set (map mint xs)"
  by (induction xs) auto

lemma find_filter_drop:
  "find (\<lambda>a. mint a = m) xs = Some x \<Longrightarrow> distinct (map mint xs) \<Longrightarrow> \<not> Q x
   \<Longrightarrow> find (\<lambda>a. mint a = m) (filter Q xs) = None"
proof (induction xs)
  case Nil
  then show ?case by simp
next
  case (Cons y ys)
  show ?case
  proof (cases "mint y = m")
    case True
    with Cons.prems have "x = y" and "m \<notin> set (map mint ys)" by auto
    then have "find (\<lambda>a. mint a = m) (filter Q ys) = None"
      by (auto simp: find_None_iff)
    with \<open>x = y\<close> Cons.prems(3) show ?thesis by simp
  next
    case False
    with Cons show ?thesis by auto
  qed
qed


section \<open>The portfolio update\<close>

lemma mint_applyTrade [simp]: "mint (applyTrade side qty price a) = mint a"
  by (simp add: applyTrade_def Let_def)

lemma mint_revalue [simp]: "mint (revalue md a) = mint a"
  by (simp add: revalue_def Let_def split: option.splits)

lemma quantity_revalue [simp]: "quantity (revalue md a) = quantity a"
  by (simp add: revalue_def Let_def split: option.splits)

lemma averagePrice_revalue [simp]: "averagePrice (revalue md a) = averagePrice a"
  by (simp add: revalue_def Let_def split: option.splits)

text \<open>The entry of the traded asset as it stands before the final filter.\<close>

lemma stored_assets:
  "\<exists>p. portfolios (updateUserPortfolio s w m qty price side) w = Some p \<and>
       assets p = filter (\<lambda>a. quantity a > 0)
         (modifyFirst (\<lambda>a. mint a = m)
            (\<lambda>a. revalue (marketDataMap s m) (applyTrade side qty price a))
            (case find (\<lambda>a. mint a = m)
                    (assets (case portfolios s w of None \<Rightarrow> emptyPortfolio w | Some p \<Rightarrow> p)) of
               None \<Rightarrow> assets (case portfolios s w of None \<Rightarrow> emptyPortfolio w | Some p \<Rightarrow> p)
                         @ [newAsset m]
             | Some _ \<Rightarrow> assets (case portfolios s w of None \<Rightarrow> emptyPortfolio w | Some p \<Rightarrow> p)))"
  by (simp add: updateUserPortfolio_def Let_def)

lemma stored_positive:
  "\<exists>p. portfolios (updateUserPortfolio s w m qty price side) w = Some p \<and>
       (\<forall>a\<in>set (assets p). 0 < quantity a)"
  using stored_assets[of s w m qty price side] by auto

lemma other_portfolios:
  "w' \<noteq> w \<Longrightarrow> portfolios (updateUserPortfolio s w m qty price side) w' = portfolios s w'"
  by (simp add: updateUserPortfolio_def Let_def)

lemma traded_entry:
  "find (\<lambda>a. mint a = m)
     (modifyFirst (\<lambda>a. mint a = m)
        (\<lambda>a. revalue md (applyTrade side qty price a))
        (case find (\<lambda>a. mint a = m) xs of None \<Rightarrow> xs @ [newAsset m] | Some _ \<Rightarrow> xs))
   = Some (revalue md (applyTrade side qty price
        (case find (\<lambda>a. mint a = m) xs of None \<Rightarrow> newAsset m | Some a \<Rightarrow> a)))"
  by (cases "find (\<lambda>a. mint a = m) xs")
     (simp_all add: find_modifyFirst find_append_new newAsset_def)

lemma positionOrNew_alt:
  "positionOrNew s w m =
     (case find (\<lambda>a. mint a = m)
             (assets (case portfolios s w of None \<Rightarrow> emptyPortfolio w | Some p \<Rightarrow> p)) of
        None \<Rightarrow> newAsset m | Some a \<Rightarrow> a)"
  by (simp add: positionOrNew_def findAsset_def getUserPortfolio_def emptyPortfolio_def
      split: option.splits)

lemma position_after_kept:
  assumes "0 < quantity (applyTrade side qty price (positionOrNew s w m))"
  shows "findAsset (getUserPortfolio (updateUserPortfolio s w m qty price side) w) m =
           Some (revalue (marketDataMap s m) (applyTrade side qty price (positionOrNew s w m)))"
proof -
  define xs where "xs = assets (case portfolios s w of None \<Rightarrow> emptyPortfolio w | Some p \<Rightarrow> p)"
  define f where "f = (\<lambda>a. revalue (marketDataMap s m) (applyTrade side qty price a))"
  have pos: "positionOrNew s w m =
               (case find (\<lambda>a. mint a = m) xs of None \<Rightarrow> newAsset m | Some a \<Rightarrow> a)"
    by (simp add: positionOrNew_alt xs_def)
  obtain p where p: "portfolios (updateUserPortfolio s w m qty price side) w = Some p"
    and a: "assets p = filter (\<lambda>a. quantity a > 0)
         (modifyFirst (\<lambda>a. mint a = m) f
            (case find (\<lambda>a. mint a = m) xs of None \<Rightarrow> xs @ [newAsset m] | Some _ \<Rightarrow> xs))"
    using stored_assets[of s w m qty price side] unfolding xs_def f_def by blast
  have "find (\<lambda>a. mint a = m) (assets p) = Some (f (positionOrNew s w m))"
    unfolding a pos f_def
    by (rule find_filter_keep[OF traded_entry]) (use assms pos in simp)
  then show ?thesis
    by (simp add: findAsset_def getUserPortfolio_def p f_def)
qed

lemma position_after_dropped:
  assumes "distinctMints (portfolios s w)"
    and "\<not> 0 < quantity (applyTrade side qty price (positionOrNew s w m))"
  shows "findAsset (getUserPortfolio (updateUserPortfolio s w m qty price side) w) m = None"
proof -
  define xs where "xs = assets (case portfolios s w of None \<Rightarrow> emptyPortfolio w | Some p \<Rightarrow> p)"
  define f where "f = (\<lambda>a. revalue (marketDataMap s m) (applyTrade side qty price a))"
  define ys where
    "ys = (case find (\<lambda>a. mint a = m) xs of None \<Rightarrow> xs @ [newAsset m] | Some _ \<Rightarrow> xs)"
  have pos: "positionOrNew s w m =
               (case find (\<lambda>a. mint a = m) xs of None \<Rightarrow> newAsset m | Some a \<Rightarrow> a)"
    by (simp add: positionOrNew_alt xs_def)
  have dxs: "distinct (map mint xs)"
    using assms(1) by (simp add: distinctMints_def xs_def emptyPortfolio_def split: option.splits)
  have dys: "distinct (map mint ys)"
    using dxs by (auto simp: ys_def newAsset_def find_None_iff_mint split: option.splits)
  obtain p where p: "portfolios (updateUserPortfolio s w m qty price side) w = Some p"
    and a: "assets p = filter (\<lambda>a. quantity a > 0) (modifyFirst (\<lambda>a. mint a = m) f ys)"
    using stored_assets[of s w m qty price side] unfolding xs_def f_def ys_def by blast
  have "map mint (modifyFirst (\<lambda>a. mint a = m) f ys) = map mint ys"
    by (rule map_modifyFirst) (simp add: f_def)
  with dys have d: "distinct (map mint (modifyFirst (\<lambda>a. mint a = m) f ys))" by simp
  have e: "find (\<lambda>a. mint a = m) (modifyFirst (\<lambda>a. mint a = m) f ys)
             = Some (f (positionOrNew s w m))"
    unfolding ys_def pos f_def by (rule traded_entry)
  have "find (\<lambda>a. mint a = m) (assets p) = None"
    unfolding a by (rule find_filter_drop[OF e d]) (use assms(2) in \<open>simp add: f_def\<close>)
  then show ?thesis
    by (simp add: findAsset_def getUserPortfolio_def p)
qed

lemma distinctMints_preserved:
  assumes "distinctMints (portfolios s w')"
  shows "distinctMints (portfolios (updateUserPortfolio s w m qty price side) w')"
proof (cases "w' = w")
  case False
  with assms show ?thesis by (simp add: other_portfolios)
next
  case True
  define xs where "xs = assets (case portfolios s w of None \<Rightarrow> emptyPortfolio w | Some p \<Rightarrow> p)"
  define f where "f = (\<lambda>a. revalue (marketDataMap s m) (applyTrade side qty price a))"
  define ys where
    "ys = (case find (\<lambda>a. mint a = m) xs of None \<Rightarrow> xs @ [newAsset m] | Some _ \<Rightarrow> xs)"
  have dxs: "distinct (map mint xs)"
    using assms True
    by (simp add: distinctMints_def xs_def emptyPortfolio_def split: option.splits)
  have dys: "distinct (map mint ys)"
    using dxs by (auto simp: ys_def newAsset_def find_None_iff_mint split: option.splits)
  obtain p where p: "portfolios (updateUserPortfolio s w m qty price side) w = Some p"
    and a: "assets p = filter (\<lambda>a. quantity a > 0) (modifyFirst (\<lambda>a. mint a = m) f ys)"
    using stored_assets[of s w m qty price side] unfolding xs_def f_def ys_def by blast
  have "map mint (modifyFirst (\<lambda>a. mint a = m) f ys) = map mint ys"
    by (rule map_modifyFirst) (simp add: f_def)
  with dys have "distinct (map mint (modifyFirst (\<lambda>a. mint a = m) f ys))" by simp
  then have "distinct (map mint (assets p))"
    unfolding a by (rule distinct_map_filter)
  with True p show ?thesis by (simp add: distinctMints_def)
qed


lemma quantity_buy:
  "quantity (applyTrade Buy qty price a) = fadd (quantity a) qty"
  by (simp add: applyTrade_def Let_def)

lemma averagePrice_buy:
  "averagePrice (applyTrade Buy qty price a) =
     fdiv (fadd (fmul (quantity a) (averagePrice a)) (fmul qty price)) (fadd (quantity a) qty)"
  by (simp add: applyTrade_def Let_def)

text \<open>Rounding keeps the sign, so the exact sum or difference tells whether an entry stays.\<close>

lemma buy_kept_iff:
  "0 < quantity (applyTrade Buy qty price a) \<longleftrightarrow> 0 < quantity a + qty"
  by (simp add: applyTrade_def Let_def fadd_def)

lemma sell_kept_iff:
  "0 < quantity (applyTrade Sell qty price a) \<longleftrightarrow> qty < quantity a"
  by (simp add: applyTrade_def Let_def fsub_def)

lemma quantity_sell:
  "quantity (applyTrade Sell qty price a) = max (fsub (quantity a) qty) 0"
  by (simp add: applyTrade_def Let_def max_def)

lemma quantity_sell_kept:
  "qty < quantity a \<Longrightarrow> quantity (applyTrade Sell qty price a) = fsub (quantity a) qty"
  by (simp add: applyTrade_def Let_def fsub_def not_less less_imp_le)

lemma averagePrice_sell:
  "averagePrice (applyTrade Sell qty price a) = averagePrice a"
  by (simp add: applyTrade_def Let_def)

lemma held_nonneg_after_update:
  "0 \<le> quantity (positionOrNew (updateUserPortfolio s w m qty price side) w m')"
proof -
  obtain p where p: "portfolios (updateUserPortfolio s w m qty price side) w = Some p"
    and pos: "\<forall>a\<in>set (assets p). 0 < quantity a"
    using stored_positive[of s w m qty price side] by blast
  show ?thesis
  proof (cases "find (\<lambda>a. mint a = m') (assets p)")
    case None
    then show ?thesis
      by (simp add: positionOrNew_def findAsset_def getUserPortfolio_def p newAsset_def)
  next
    case (Some a)
    then have "a \<in> set (assets p)" by (auto simp: find_Some_iff)
    with pos have "0 < quantity a" by blast
    with Some show ?thesis
      by (simp add: positionOrNew_def findAsset_def getUserPortfolio_def p)
  qed
qed

lemma applyFills_member:
  "s' \<in> set (applyFills s w m fills)
   \<Longrightarrow> \<exists>s0 qty price side. s' = updateUserPortfolio s0 w m qty price side"
proof (induction fills arbitrary: s)
  case Nil
  then show ?case by simp
next
  case (Cons f fs)
  obtain side qty price where f: "f = (side, qty, price)" by (cases f)
  from Cons.prems consider
      "s' = updateUserPortfolio s w m qty price side"
    | "s' \<in> set (applyFills (updateUserPortfolio s w m qty price side) w m fs)"
    by (auto simp: f Let_def)
  then show ?case
  proof cases
    case 1
    then show ?thesis by blast
  next
    case 2
    then show ?thesis by (rule Cons.IH)
  qed
qed

lemmas eval_defs =
  updateUserPortfolio_def newEngine_def emptyPortfolio_def newAsset_def applyTrade_def
  revalue_def findAsset_def getUserPortfolio_def positionOrNew_def distinctMints_def Let_def
  fadd_def fsub_def fmul_def fdiv_def

lemma aliceHolds100_position:
  "positionOrNew aliceHolds100 ''alice'' ''M'' =
     \<lparr>assetId = ''M'', mint = ''M'', quantity = 100, averagePrice = 180,
      currentValue = 0, pnl = 0, pnlPercentage = 0\<rparr>"
  by (simp add: aliceHolds100_def eval_defs)

lemma bobHolds1_position:
  "positionOrNew bobHolds1 ''bob'' ''M'' =
     \<lparr>assetId = ''M'', mint = ''M'', quantity = 1, averagePrice = 1,
      currentValue = 0, pnl = 0, pnlPercentage = 0\<rparr>"
  by (simp add: bobHolds1_def eval_defs)

lemma bobHoldsMany_position:
  "positionOrNew bobHoldsMany ''bob'' ''M'' =
     \<lparr>assetId = ''M'', mint = ''M'', quantity = 9007199254740992, averagePrice = 1,
      currentValue = 0, pnl = 0, pnlPercentage = 0\<rparr>"
  by (simp add: bobHoldsMany_def eval_defs)

section \<open>The sample market and market buys\<close>

lemma initialEngine_rolex1:
  "marketDataMap initialEngine rolex1 =
     Some \<lparr>md_assetMint = rolex1, currentPrice = 180,
       priceChange24h = rd (52 / 10), priceChangePercentage24h = rd (36 / 10),
       volume24h = 2800,
       marketCap = 18000000, circulatingSupply = 100000, totalSupply = 100000,
       high24h = 185, low24h = 175, lastUpdated = 0\<rparr>"
  by (simp add: initialEngine_def initializeMarketData_def sampleMarketData_def rolex1_def)

lemma initialEngine_rest:
  "orders initialEngine = Map.empty" "portfolios initialEngine = Map.empty"
  "programKey initialEngine = Some ''P''"
  by (simp_all add: initialEngine_def initializeMarketData_def sampleMarketData_def
      newEngine_def)

lemma updateMarketData_frame:
  "portfolios (updateMarketDataAfterTrade now s m qty side price) = portfolios s"
  "orders (updateMarketDataAfterTrade now s m qty side price) = orders s"
  "programKey (updateMarketDataAfterTrade now s m qty side price) = programKey s"
  by (simp_all add: updateMarketDataAfterTrade_def Let_def split: option.splits)

lemma updateUserPortfolio_frame:
  "orders (updateUserPortfolio s w m qty price side) = orders s"
  "marketDataMap (updateUserPortfolio s w m qty price side) = marketDataMap s"
  "programKey (updateUserPortfolio s w m qty price side) = programKey s"
  by (simp_all add: updateUserPortfolio_def Let_def)

lemma positionOrNew_cong:
  "portfolios s' = portfolios s \<Longrightarrow> positionOrNew s' w m = positionOrNew s w m"
  by (simp add: positionOrNew_def getUserPortfolio_def)

lemma buyTokens_success:
  assumes "marketDataMap s m = Some md" and "\<not> exceeds (currentPrice md) maxPrice"
    and "programKey s = Some k"
  shows "buyTokens now s m qty buyer maxPrice =
           (Inr [\<lparr>keys = [], programId = k, data = []\<rparr>],
            updateUserPortfolio
              (updateMarketDataAfterTrade now s m qty Buy (currentPrice md))
              buyer m qty (currentPrice md) Buy)"
  using assms by (simp add: buyTokens_def createInstruction_def Let_def)

lemma buyTokens_entry:
  assumes "marketDataMap s m = Some md" and "\<not> exceeds (currentPrice md) maxPrice"
    and "programKey s = Some k" and "0 < quantity (positionOrNew s buyer m) + qty"
  shows "findAsset (getUserPortfolio (snd (buyTokens now s m qty buyer maxPrice)) buyer) m
         = Some (revalue
             (marketDataMap (updateMarketDataAfterTrade now s m qty Buy (currentPrice md)) m)
             (applyTrade Buy qty (currentPrice md) (positionOrNew s buyer m)))"
proof -
  define s1 where "s1 = updateMarketDataAfterTrade now s m qty Buy (currentPrice md)"
  have b: "buyTokens now s m qty buyer maxPrice =
             (Inr [\<lparr>keys = [], programId = k, data = []\<rparr>],
              updateUserPortfolio s1 buyer m qty (currentPrice md) Buy)"
    unfolding s1_def using assms(1-3) by (rule buyTokens_success)
  have p: "positionOrNew s1 buyer m = positionOrNew s buyer m"
    by (rule positionOrNew_cong) (simp add: s1_def updateMarketData_frame)
  from assms(4) p
  have "0 < quantity (applyTrade Buy qty (currentPrice md) (positionOrNew s1 buyer m))"
    by (simp add: buy_kept_iff)
  then have "findAsset (getUserPortfolio
               (updateUserPortfolio s1 buyer m qty (currentPrice md) Buy) buyer) m
             = Some (revalue (marketDataMap s1 m)
                 (applyTrade Buy qty (currentPrice md) (positionOrNew s1 buyer m)))"
    by (rule position_after_kept)
  then have "findAsset (getUserPortfolio (snd (buyTokens now s m qty buyer maxPrice)) buyer) m
             = Some (revalue (marketDataMap s1 m)
                 (applyTrade Buy qty (currentPrice md) (positionOrNew s buyer m)))"
    by (simp add: b p)
  then show ?thesis by (simp add: s1_def)
qed

lemma buyTokens_position:
  assumes "marketDataMap s m = Some md" and "\<not> exceeds (currentPrice md) maxPrice"
    and "programKey s = Some k" and "0 < quantity (positionOrNew s buyer m) + qty"
  shows "map_option quantity
           (findAsset (getUserPortfolio (snd (buyTokens now s m qty buyer maxPrice)) buyer) m)
         = Some (fadd (quantity (positionOrNew s buyer m)) qty)"
    and "map_option averagePrice
           (findAsset (getUserPortfolio (snd (buyTokens now s m qty buyer maxPrice)) buyer) m)
         = Some (fdiv (fadd (fmul (quantity (positionOrNew s buyer m))
                               (averagePrice (positionOrNew s buyer m)))
                         (fmul qty (currentPrice md)))
                   (fadd (quantity (positionOrNew s buyer m)) qty))"
  by (simp_all add: buyTokens_entry[OF assms] quantity_buy averagePrice_buy)

lemma buyTokens_orders:
  "orders (snd (buyTokens now s m qty buyer maxPrice)) = orders s"
  by (simp add: buyTokens_def Let_def updateUserPortfolio_frame updateMarketData_frame
      split: option.splits)

lemma sellTokens_orders:
  "orders (snd (sellTokens now s m qty seller minPrice)) = orders s"
  by (simp add: sellTokens_def Let_def updateUserPortfolio_frame updateMarketData_frame
      split: option.splits)

lemma recorded_trade:
  assumes "marketDataMap s m = Some md"
  shows "map_option currentPrice
           (marketDataMap (updateMarketDataAfterTrade now s m qty side price) m) = Some price"
    and "map_option volume24h
           (marketDataMap (updateMarketDataAfterTrade now s m qty side price) m)
         = Some (fadd (volume24h md) (fmul qty price))"
    and "map_option marketCap
           (marketDataMap (updateMarketDataAfterTrade now s m qty side price) m)
         = Some (fmul price (totalSupply md))"
  using assms by (simp_all add: updateMarketDataAfterTrade_def Let_def)

lemma sellTokens_success:
  assumes "marketDataMap s m = Some md" and "\<not> below (currentPrice md) minPrice"
    and "findAsset (getUserPortfolio s seller) m = Some a" and "qty \<le> quantity a"
    and "programKey s = Some k"
  shows "sellTokens now s m qty seller minPrice =
           (Inr [\<lparr>keys = [], programId = k, data = []\<rparr>],
            updateUserPortfolio
              (updateMarketDataAfterTrade now s m qty Sell (currentPrice md))
              seller m qty (currentPrice md) Sell)"
  using assms by (simp add: sellTokens_def createInstruction_def Let_def not_less)

lemma sellTokens_entry:
  assumes "marketDataMap s m = Some md" and "\<not> below (currentPrice md) minPrice"
    and "findAsset (getUserPortfolio s seller) m = Some a" and "qty < quantity a"
    and "programKey s = Some k"
  shows "findAsset (getUserPortfolio (snd (sellTokens now s m qty seller minPrice)) seller) m
         = Some (revalue
             (marketDataMap (updateMarketDataAfterTrade now s m qty Sell (currentPrice md)) m)
             (applyTrade Sell qty (currentPrice md) a))"
proof -
  define s1 where "s1 = updateMarketDataAfterTrade now s m qty Sell (currentPrice md)"
  have le: "qty \<le> quantity a" using assms(4) by simp
  have b: "sellTokens now s m qty seller minPrice =
             (Inr [\<lparr>keys = [], programId = k, data = []\<rparr>],
              updateUserPortfolio s1 seller m qty (currentPrice md) Sell)"
    unfolding s1_def using assms(1-3) le assms(5) by (rule sellTokens_success)
  have "positionOrNew s1 seller m = positionOrNew s seller m"
    by (rule positionOrNew_cong) (simp add: s1_def updateMarketData_frame)
  then have p: "positionOrNew s1 seller m = a"
    using assms(3) by (simp add: positionOrNew_def)
  from assms(4) p
  have "0 < quantity (applyTrade Sell qty (currentPrice md) (positionOrNew s1 seller m))"
    by (simp add: sell_kept_iff)
  then have "findAsset (getUserPortfolio
               (updateUserPortfolio s1 seller m qty (currentPrice md) Sell) seller) m
             = Some (revalue (marketDataMap s1 m)
                 (applyTrade Sell qty (currentPrice md) (positionOrNew s1 seller m)))"
    by (rule position_after_kept)
  then have "findAsset (getUserPortfolio (snd (sellTokens now s m qty seller minPrice)) seller) m
             = Some (revalue (marketDataMap s1 m) (applyTrade Sell qty (currentPrice md) a))"
    by (simp add: b p)
  then show ?thesis by (simp add: s1_def)
qed

lemma initialEngine_no_position:
  "positionOrNew initialEngine w m = newAsset m"
  by (simp add: positionOrNew_def findAsset_def getUserPortfolio_def initialEngine_rest)

lemma not_exceeds_None: "\<not> exceeds p None"
  by (simp add: exceeds_def)

lemma quantity_positionOrNew:
  "map_option quantity (findAsset (getUserPortfolio s w) m) = Some q
   \<Longrightarrow> quantity (positionOrNew s w m) = q"
  by (auto simp: positionOrNew_def)

lemma totalSupply_after_trade:
  "map_option totalSupply (marketDataMap (updateMarketDataAfterTrade now s m qty side price) m')
     = map_option totalSupply (marketDataMap s m')"
  by (simp add: updateMarketDataAfterTrade_def Let_def split: option.splits)

lemma totalSupply_after_buy:
  "map_option totalSupply (marketDataMap (snd (buyTokens now s m qty buyer maxPrice)) m')
     = map_option totalSupply (marketDataMap s m')"
  by (simp add: buyTokens_def Let_def updateUserPortfolio_frame totalSupply_after_trade
      split: option.splits)

lemma holder_engine:
  "tradingEngine (holder qty) = snd (buyTokens 1 initialEngine rolex1 qty ''alice'' None)"
  by (simp add: holder_def platformBuyTokens_def platform0_def connectedAccount_def
      split: prod.splits)

lemma holder_wallet: "connectedAccount (wallet (holder qty)) = Some ''alice''"
  by (simp add: holder_def platformBuyTokens_def platform0_def connectedAccount_def
      split: prod.splits)

lemma holder_quantity:
  assumes "0 < qty" and "rd qty = qty"
  shows "quantity (positionOrNew (tradingEngine (holder qty)) ''alice'' rolex1) = qty"
proof -
  have "map_option quantity
          (findAsset (getUserPortfolio
             (snd (buyTokens 1 initialEngine rolex1 qty ''alice'' None)) ''alice'') rolex1)
        = Some (fadd (quantity (positionOrNew initialEngine ''alice'' rolex1)) qty)"
    by (rule buyTokens_position[OF initialEngine_rolex1 not_exceeds_None initialEngine_rest(3)])
       (use assms in \<open>simp add: initialEngine_no_position newAsset_def\<close>)
  then have "map_option quantity
          (findAsset (getUserPortfolio (tradingEngine (holder qty)) ''alice'') rolex1)
        = Some qty"
    using assms(2) by (simp add: holder_engine initialEngine_no_position newAsset_def fadd_def)
  then show ?thesis by (rule quantity_positionOrNew)
qed

lemma holder_quantities:
  "quantity (positionOrNew (tradingEngine (holder 99999)) ''alice'' rolex1) = 99999"
  "quantity (positionOrNew (tradingEngine (holder 100000)) ''alice'' rolex1) = 100000"
  "quantity (positionOrNew (tradingEngine (holder 100001)) ''alice'' rolex1) = 100001"
  by (rule holder_quantity; simp)+

lemma holder_totalSupply:
  "map_option totalSupply (marketDataMap (tradingEngine (holder qty)) rolex1) = Some 100000"
  by (simp add: holder_engine totalSupply_after_buy initialEngine_rolex1)

lemma buyerA_market:
  "marketDataMap buyerA rolex1 =
     Some \<lparr>md_assetMint = rolex1, currentPrice = 180,
       priceChange24h = rd (52 / 10), priceChangePercentage24h = rd (36 / 10),
       volume24h = 47800,
       marketCap = 18000000, circulatingSupply = 100000, totalSupply = 100000,
       high24h = 185, low24h = 175, lastUpdated = 1\<rparr>"
  by (simp add: buyerA_def exceeds_def updateUserPortfolio_frame
      buyTokens_success[OF initialEngine_rolex1 _ initialEngine_rest(3)]
      updateMarketDataAfterTrade_def initialEngine_rolex1 fadd_def fmul_def)

lemma buyerA_position:
  "findAsset (getUserPortfolio buyerA ''A'') rolex1 =
     Some \<lparr>assetId = rolex1, mint = rolex1, quantity = 250, averagePrice = 180,
           currentValue = 45000, pnl = 0, pnlPercentage = 0\<rparr>"
proof -
  have e: "\<not> exceeds (currentPrice
             \<lparr>md_assetMint = rolex1, currentPrice = 180,
              priceChange24h = rd (52 / 10), priceChangePercentage24h = rd (36 / 10),
              volume24h = 2800,
              marketCap = 18000000, circulatingSupply = 100000, totalSupply = 100000,
              high24h = 185, low24h = 175, lastUpdated = 0\<rparr>) (Some 200)"
    by (simp add: exceeds_def)
  have z: "0 < quantity (positionOrNew initialEngine ''A'' rolex1) + 250"
    by (simp add: initialEngine_no_position newAsset_def)
  show ?thesis
    unfolding buyerA_def
    by (simp add: buyTokens_entry[OF initialEngine_rolex1 e initialEngine_rest(3) z]
        initialEngine_no_position newAsset_def applyTrade_def revalue_def Let_def
        updateMarketDataAfterTrade_def initialEngine_rolex1
        fadd_def fsub_def fmul_def fdiv_def)
qed

lemma buyerA_programKey: "programKey buyerA = Some ''P''"
  by (simp add: buyerA_def buyTokens_def Let_def updateUserPortfolio_frame
      updateMarketData_frame initialEngine_rest split: option.splits)

section \<open>Stored portfolios of reachable states\<close>

lemma positiveEntries_preserved:
  assumes "positiveEntries (portfolios s w')"
  shows "positiveEntries (portfolios (updateUserPortfolio s w m qty price side) w')"
proof (cases "w' = w")
  case False
  with assms show ?thesis by (simp add: other_portfolios)
next
  case True
  then show ?thesis
    using stored_positive[of s w m qty price side]
    by (auto simp: positiveEntries_def list_all_iff)
qed

lemma trade_keeps_portfolios_sound:
  assumes "distinctMints (portfolios s w') \<and> positiveEntries (portfolios s w')"
  shows "distinctMints
           (portfolios (updateUserPortfolio (updateMarketDataAfterTrade now s m qty side price)
              w m qty price side) w')
         \<and> positiveEntries
           (portfolios (updateUserPortfolio (updateMarketDataAfterTrade now s m qty side price)
              w m qty price side) w')"
  using assms
  by (simp add: distinctMints_preserved positiveEntries_preserved updateMarketData_frame)

lemma reachable_portfolios_sound:
  "reachable s \<Longrightarrow> distinctMints (portfolios s w) \<and> positiveEntries (portfolios s w)"
proof (induction rule: reachable.induct)
  case (constructed pk)
  then show ?case
    by (simp add: newEngine_def distinctMints_def positiveEntries_def)
next
  case (initialized s now)
  then show ?case
    by (simp add: initializeMarketData_def sampleMarketData_def)
next
  case (buy s now m qty buyer maxPrice)
  then show ?case
    by (auto simp: buyTokens_def Let_def trade_keeps_portfolios_sound split: option.splits)
next
  case (sell s now m qty seller minPrice)
  then show ?case
    by (auto simp: sellTokens_def Let_def trade_keeps_portfolios_sound split: option.splits)
next
  case (place s now orderId m side qty price user)
  then show ?case by (simp add: placeLimitOrder_def Let_def)
next
  case (cancel s orderId user)
  then show ?case by (simp add: cancelOrder_def split: option.splits)
qed


section \<open>Orders\<close>

lemma pendingOrderState_order:
  "orders pendingOrderState ''o1'' =
     Some \<lparr>ord_id = ''o1'', ord_userId = ''alice'', ord_assetMint = ''M'',
           ord_type = LIMIT, ord_side = BUY, ord_quantity = 10, ord_price = 5,
           ord_status = PENDING, ord_createdAt = 1, ord_executedAt = None,
           ord_txHash = None\<rparr>"
  by (simp add: pendingOrderState_def placeLimitOrder_def newEngine_def)

lemma cancelledOrderState_order:
  "orders cancelledOrderState ''o1'' =
     Some \<lparr>ord_id = ''o1'', ord_userId = ''alice'', ord_assetMint = ''M'',
           ord_type = LIMIT, ord_side = BUY, ord_quantity = 10, ord_price = 5,
           ord_status = CANCELLED, ord_createdAt = 1, ord_executedAt = None,
           ord_txHash = None\<rparr>"
  by (simp add: cancelledOrderState_def cancelOrder_def pendingOrderState_order)

lemma pendingOrderState_no_o2: "orders pendingOrderState ''o2'' = None"
  by (simp add: pendingOrderState_def placeLimitOrder_def newEngine_def)

section \<open>Redemption requests\<close>

lemma requestRedemption_granted:
  assumes "connectedAccount (wallet c) = Some account"
    and "100000 \<le> quantity (positionOrNew (tradingEngine c) account m)"
  shows "requestRedemption now rid c m addr =
           (Inr rid,
            c\<lparr>vaultManager :=
                (vaultManager c)\<lparr>redemptionRequests :=
                   (redemptionRequests (vaultManager c))(rid \<mapsto>
                      \<lparr>rr_id = rid, rr_userId = account, rr_assetMint = m,
                       tokenQuantity = 100000, rr_status = RS_PENDING, requestedAt = now,
                       processedAt = None, shippingAddress = addr,
                       trackingNumber = None\<rparr>)\<rparr>\<rparr>)"
  using assms
  by (auto simp: requestRedemption_def positionOrNew_def newAsset_def
      vaultRequestRedemption_def Let_def split: option.splits)

lemma requestRedemption_refused:
  assumes "connectedAccount (wallet c) = Some account"
    and "quantity (positionOrNew (tradingEngine c) account m) < 100000"
  shows "requestRedemption now rid c m addr = (Inl INSUFFICIENT_TOKENS_FOR_REDEMPTION, c)"
  using assms
  by (auto simp: requestRedemption_def positionOrNew_def newAsset_def split: option.splits)

lemma pendingVault_r1:
  "redemptionRequests pendingVault ''r1'' =
     Some \<lparr>rr_id = ''r1'', rr_userId = ''alice'', rr_assetMint = rolex1,
           tokenQuantity = 100000, rr_status = RS_PENDING, requestedAt = 2,
           processedAt = None, shippingAddress = someAddress, trackingNumber = None\<rparr>"
proof -
  have "100000 \<le> quantity (positionOrNew (tradingEngine (holder 100000)) ''alice'' rolex1)"
    by (simp add: holder_quantities)
  then show ?thesis
    by (simp add: pendingVault_def requestRedemption_granted[OF holder_wallet])
qed

lemma admin_may_update:
  "hasPermission (Some [''admin:redemption'']) ''admin:redemption''"
  by (simp add: hasPermission_def)

lemma processingVault_r1:
  "redemptionRequests processingVault ''r1'' =
     Some \<lparr>rr_id = ''r1'', rr_userId = ''alice'', rr_assetMint = rolex1,
           tokenQuantity = 100000, rr_status = RS_PROCESSING, requestedAt = 2,
           processedAt = Some 3, shippingAddress = someAddress, trackingNumber = None\<rparr>"
  by (simp add: processingVault_def putRedemptionStatus_def admin_may_update
      validStatuses_def statusOfString_def updateRedemptionStatus_def pendingVault_r1
      respond_def truthyString_def)

text \<open>
  The methods that check the current status before they change it, and the one that
  does not.
\<close>

lemma guarded_transitions:
  assumes "redemptionRequests v requestId = Some request"
  shows "processRedemption now v requestId =
           (if rr_status request = RS_PENDING
            then (Inr True, snd (updateRedemptionStatus now v requestId RS_PROCESSING None))
            else (Inl INVALID_REDEMPTION_STATUS, v))"
    and "shipRedemption now v requestId tracking =
           (if rr_status request = RS_PROCESSING
            then (Inr True,
                  snd (updateRedemptionStatus now v requestId RS_SHIPPED (Some tracking)))
            else (Inl INVALID_REDEMPTION_STATUS, v))"
    and "markRedemptionDelivered now v requestId =
           (if rr_status request = RS_SHIPPED
            then (Inr True, snd (updateRedemptionStatus now v requestId RS_DELIVERED None))
            else (Inl INVALID_REDEMPTION_STATUS, v))"
    and "rr_userId request = user \<Longrightarrow> cancelRedemption now v requestId user =
           (if rr_status request = RS_PENDING
            then (Inr True, snd (updateRedemptionStatus now v requestId RS_CANCELLED None))
            else (Inl REDEMPTION_NOT_CANCELLABLE, v))"
  using assms
  by (simp_all add: processRedemption_def shipRedemption_def markRedemptionDelivered_def
      cancelRedemption_def)

lemma updateRedemptionStatus_sets_any_status:
  assumes "redemptionRequests v requestId = Some request"
  shows "fst (updateRedemptionStatus now v requestId status tracking) = True
       \<and> map_option rr_status
           (redemptionRequests (snd (updateRedemptionStatus now v requestId status tracking))
              requestId) = Some status"
  using assms by (simp add: updateRedemptionStatus_def Let_def)


section \<open>Asset prices\<close>

lemma updateAssetPrice_lastMarketCap:
  assumes "getAssetByMint a key = Some asset"
  shows "lastMarketCap (updateAssetPrice now a key price) key
           = Some (fmul price (ca_totalSupply asset))"
proof -
  obtain r where r: "assetsMap a key = Some r" and o: "objects a r = Some asset"
    using assms by (auto simp: getAssetByMint_def split: Option.bind_splits)
  show ?thesis
  proof (cases "length (arrays a (ca_priceHistory asset) @
           [\<lparr>pp_timestamp = now, pp_price = price, pp_volume = 0,
             pp_marketCap = fmul price (ca_totalSupply asset)\<rparr>]) > 1000")
    case True
    then show ?thesis
      using r o
      by (simp add: lastMarketCap_def updateAssetPrice_def getAssetByMint_def historyOf_def
          Let_def rev_drop)
  next
    case False
    then show ?thesis
      using r o
      by (simp add: lastMarketCap_def updateAssetPrice_def getAssetByMint_def historyOf_def
          Let_def)
  qed
qed

lemma managerWithAsset_asset:
  "getAssetByMint managerWithAsset ''TestMint'' =
     Some \<lparr>ca_id = generateAssetId 1000 ''Test Card'', ca_name = ''Test Card'',
           ca_mint = ''TestMint'', ca_totalSupply = 100000, ca_circulatingSupply = 60000,
           ca_currentPrice = 100, ca_priceHistory = 0, ca_createdAt = 1000,
           ca_updatedAt = 1000, ca_details = ()\<rparr>"
  by (simp add: managerWithAsset_def addAsset_def newAssetManager_def partlyCirculating_def
      getAssetByMint_def Let_def)

lemma circulating_after_update:
  "map_option ca_circulatingSupply (getAssetByMint (updateAssetPrice now a key price) key')
     = map_option ca_circulatingSupply (getAssetByMint a key')"
  by (auto simp: updateAssetPrice_def getAssetByMint_def Let_def
      split: option.splits Option.bind_splits prod.splits if_splits)


section \<open>The claims\<close>

text \<open>
  Claim C1, as the code has it. For the account of a connected wallet,
  \<open>requestRedemption\<close> succeeds, storing a new request in status pending, when the
  quantity of the account's position in the asset is at least 100,000, the number of
  tokens the code assumes for every asset; with a smaller quantity (99,999, or no
  position) it fails with \<open>INSUFFICIENT_TOKENS_FOR_REDEMPTION\<close> and stores nothing.
\<close>

theorem requestRedemption_threshold:
  assumes "connectedAccount (wallet c) = Some account"
  shows "(100000 \<le> quantity (positionOrNew (tradingEngine c) account m) \<longrightarrow>
            fst (requestRedemption now rid c m addr) = Inr rid
            \<and> redemptionRequests (vaultManager (snd (requestRedemption now rid c m addr))) rid
              = Some \<lparr>rr_id = rid, rr_userId = account, rr_assetMint = m,
                      tokenQuantity = 100000, rr_status = RS_PENDING, requestedAt = now,
                      processedAt = None, shippingAddress = addr, trackingNumber = None\<rparr>)
       \<and> (quantity (positionOrNew (tradingEngine c) account m) < 100000 \<longrightarrow>
            requestRedemption now rid c m addr = (Inl INSUFFICIENT_TOKENS_FOR_REDEMPTION, c))"
proof (intro conjI impI)
  assume h: "100000 \<le> quantity (positionOrNew (tradingEngine c) account m)"
  show "fst (requestRedemption now rid c m addr) = Inr rid"
    by (simp add: requestRedemption_granted[OF assms h])
  show "redemptionRequests (vaultManager (snd (requestRedemption now rid c m addr))) rid
          = Some \<lparr>rr_id = rid, rr_userId = account, rr_assetMint = m,
                  tokenQuantity = 100000, rr_status = RS_PENDING, requestedAt = now,
                  processedAt = None, shippingAddress = addr, trackingNumber = None\<rparr>"
    by (simp add: requestRedemption_granted[OF assms h])
next
  assume "quantity (positionOrNew (tradingEngine c) account m) < 100000"
  with assms show "requestRedemption now rid c m addr = (Inl INSUFFICIENT_TOKENS_FOR_REDEMPTION, c)"
    by (rule requestRedemption_refused)
qed

theorem requestRedemption_threshold_witness:
  "connectedAccount (wallet (holder 99999)) = Some ''alice''
   \<and> quantity (positionOrNew (tradingEngine (holder 99999)) ''alice'' rolex1) = 99999
   \<and> requestRedemption 2 ''r1'' (holder 99999) rolex1 someAddress
       = (Inl INSUFFICIENT_TOKENS_FOR_REDEMPTION, holder 99999)
   \<and> quantity (positionOrNew (tradingEngine (holder 100000)) ''alice'' rolex1) = 100000
   \<and> fst (requestRedemption 2 ''r1'' (holder 100000) rolex1 someAddress) = Inr ''r1''
   \<and> map_option rr_status
       (redemptionRequests
          (vaultManager (snd (requestRedemption 2 ''r1'' (holder 100000) rolex1 someAddress)))
          ''r1'') = Some RS_PENDING"
  using requestRedemption_threshold[OF holder_wallet, of 99999 rolex1 2 "''r1''" someAddress]
    requestRedemption_threshold[OF holder_wallet, of 100000 rolex1 2 "''r1''" someAddress]
  by (simp add: holder_quantities holder_wallet)

text \<open>
  The claim as stated asks for a quantity equal to the total supply. An account that
  bought 100,001 tokens of an asset of total supply 100,000 is granted the redemption.
\<close>

theorem redemption_with_more_than_supply:
  "map_option quantity
     (findAsset (getUserPortfolio (tradingEngine (holder 100001)) ''alice'') rolex1)
     = Some 100001
   \<and> map_option totalSupply (marketDataMap (tradingEngine (holder 100001)) rolex1)
     = Some 100000
   \<and> fst (requestRedemption 2 ''r1'' (holder 100001) rolex1 someAddress) = Inr ''r1''"
proof -
  have q: "quantity (positionOrNew (tradingEngine (holder 100001)) ''alice'' rolex1) = 100001"
    by (rule holder_quantities)
  then have f: "map_option quantity
     (findAsset (getUserPortfolio (tradingEngine (holder 100001)) ''alice'') rolex1)
     = Some 100001"
    by (auto simp: positionOrNew_def newAsset_def split: option.splits)
  have "100000 \<le> quantity (positionOrNew (tradingEngine (holder 100001)) ''alice'' rolex1)"
    by (simp add: q)
  then have "fst (requestRedemption 2 ''r1'' (holder 100001) rolex1 someAddress) = Inr ''r1''"
    by (simp add: requestRedemption_granted[OF holder_wallet])
  with f show ?thesis
    by (simp add: holder_totalSupply)
qed

text \<open>
  Claim C2 says a request in status processing cannot be cancelled and that a status
  never moves backward. The status route hands \<open>processing\<close> and \<open>cancelled\<close> to
  \<open>updateRedemptionStatus\<close>, which checks nothing: the request of \<open>processingVault\<close> is
  cancelled with a success response, and the method sets it back to pending just as
  well.
\<close>

theorem processing_request_gets_cancelled:
  "map_option rr_status (redemptionRequests processingVault ''r1'') = Some RS_PROCESSING
   \<and> fst (putRedemptionStatus 4 processingVault (Some [''admin:redemption'']) ''r1''
            ''cancelled'' None) = (200, ''OK'')
   \<and> map_option rr_status
       (redemptionRequests
          (snd (putRedemptionStatus 4 processingVault (Some [''admin:redemption'']) ''r1''
                  ''cancelled'' None)) ''r1'') = Some RS_CANCELLED
   \<and> map_option rr_status
       (redemptionRequests
          (snd (updateRedemptionStatus 4 processingVault ''r1'' RS_PENDING None)) ''r1'')
       = Some RS_PENDING"
  by (simp add: putRedemptionStatus_def admin_may_update
      validStatuses_def statusOfString_def updateRedemptionStatus_def processingVault_r1
      respond_def truthyString_def)

text \<open>
  Claim C3, as the code has it. No market order is rejected, marked failed or left
  resting for lack of liquidity: the code matches no order against another. For a
  known asset whose current price passes the optional price bound, \<open>buyTokens\<close> fills
  the whole quantity at the current market price: it records a trade of that quantity
  at that price in the market data (price, volume, market cap) and adds the quantity
  to the buyer's position at that price, whatever orders are stored, and leaves every
  stored order as it is. \<open>sellTokens\<close> does the same for a seller who holds at least the
  quantity.
\<close>

theorem market_orders_fill_at_current_price:
  "(\<forall>md k. marketDataMap s m = Some md \<and> \<not> exceeds (currentPrice md) maxPrice
        \<and> programKey s = Some k \<longrightarrow>
      buyTokens now s m qty buyer maxPrice =
        (Inr [\<lparr>keys = [], programId = k, data = []\<rparr>],
         updateUserPortfolio (updateMarketDataAfterTrade now s m qty Buy (currentPrice md))
           buyer m qty (currentPrice md) Buy)
      \<and> orders (snd (buyTokens now s m qty buyer maxPrice)) = orders s
      \<and> map_option currentPrice (marketDataMap (snd (buyTokens now s m qty buyer maxPrice)) m)
          = Some (currentPrice md)
      \<and> map_option volume24h (marketDataMap (snd (buyTokens now s m qty buyer maxPrice)) m)
          = Some (fadd (volume24h md) (fmul qty (currentPrice md)))
      \<and> (0 < quantity (positionOrNew s buyer m) + qty \<longrightarrow>
            map_option quantity
              (findAsset (getUserPortfolio (snd (buyTokens now s m qty buyer maxPrice)) buyer) m)
            = Some (fadd (quantity (positionOrNew s buyer m)) qty)
          \<and> map_option averagePrice
              (findAsset (getUserPortfolio (snd (buyTokens now s m qty buyer maxPrice)) buyer) m)
            = Some (fdiv (fadd (fmul (quantity (positionOrNew s buyer m))
                                  (averagePrice (positionOrNew s buyer m)))
                            (fmul qty (currentPrice md)))
                      (fadd (quantity (positionOrNew s buyer m)) qty))))
   \<and> (\<forall>md k a. marketDataMap s m = Some md \<and> \<not> below (currentPrice md) minPrice
        \<and> findAsset (getUserPortfolio s seller) m = Some a \<and> sold \<le> quantity a
        \<and> programKey s = Some k \<longrightarrow>
      sellTokens now s m sold seller minPrice =
        (Inr [\<lparr>keys = [], programId = k, data = []\<rparr>],
         updateUserPortfolio (updateMarketDataAfterTrade now s m sold Sell (currentPrice md))
           seller m sold (currentPrice md) Sell)
      \<and> orders (snd (sellTokens now s m sold seller minPrice)) = orders s
      \<and> map_option currentPrice (marketDataMap (snd (sellTokens now s m sold seller minPrice)) m)
          = Some (currentPrice md)
      \<and> map_option volume24h (marketDataMap (snd (sellTokens now s m sold seller minPrice)) m)
          = Some (fadd (volume24h md) (fmul sold (currentPrice md)))
      \<and> (sold < quantity a \<longrightarrow>
            map_option quantity
              (findAsset (getUserPortfolio (snd (sellTokens now s m sold seller minPrice))
                 seller) m)
            = Some (fsub (quantity a) sold)
          \<and> map_option averagePrice
              (findAsset (getUserPortfolio (snd (sellTokens now s m sold seller minPrice))
                 seller) m)
            = Some (averagePrice a)))"
proof (intro conjI allI impI; (elim conjE)?)
  fix md k
  assume h: "marketDataMap s m = Some md" "\<not> exceeds (currentPrice md) maxPrice"
    "programKey s = Some k"
  show b: "buyTokens now s m qty buyer maxPrice =
        (Inr [\<lparr>keys = [], programId = k, data = []\<rparr>],
         updateUserPortfolio (updateMarketDataAfterTrade now s m qty Buy (currentPrice md))
           buyer m qty (currentPrice md) Buy)"
    using h by (rule buyTokens_success)
  show "orders (snd (buyTokens now s m qty buyer maxPrice)) = orders s"
    by (rule buyTokens_orders)
  show "map_option currentPrice (marketDataMap (snd (buyTokens now s m qty buyer maxPrice)) m)
          = Some (currentPrice md)"
    by (simp add: b updateUserPortfolio_frame recorded_trade[OF h(1)])
  show "map_option volume24h (marketDataMap (snd (buyTokens now s m qty buyer maxPrice)) m)
          = Some (fadd (volume24h md) (fmul qty (currentPrice md)))"
    by (simp add: b updateUserPortfolio_frame recorded_trade[OF h(1)])
  assume q: "0 < quantity (positionOrNew s buyer m) + qty"
  show "map_option quantity
          (findAsset (getUserPortfolio (snd (buyTokens now s m qty buyer maxPrice)) buyer) m)
        = Some (fadd (quantity (positionOrNew s buyer m)) qty)"
    using h q by (rule buyTokens_position)
  show "map_option averagePrice
          (findAsset (getUserPortfolio (snd (buyTokens now s m qty buyer maxPrice)) buyer) m)
        = Some (fdiv (fadd (fmul (quantity (positionOrNew s buyer m))
                              (averagePrice (positionOrNew s buyer m)))
                        (fmul qty (currentPrice md)))
                  (fadd (quantity (positionOrNew s buyer m)) qty))"
    using h q by (rule buyTokens_position)
next
  fix md k a
  assume h: "marketDataMap s m = Some md" "\<not> below (currentPrice md) minPrice"
    "findAsset (getUserPortfolio s seller) m = Some a" "sold \<le> quantity a"
    "programKey s = Some k"
  show b: "sellTokens now s m sold seller minPrice =
        (Inr [\<lparr>keys = [], programId = k, data = []\<rparr>],
         updateUserPortfolio (updateMarketDataAfterTrade now s m sold Sell (currentPrice md))
           seller m sold (currentPrice md) Sell)"
    using h by (rule sellTokens_success)
  show "orders (snd (sellTokens now s m sold seller minPrice)) = orders s"
    by (rule sellTokens_orders)
  show "map_option currentPrice (marketDataMap (snd (sellTokens now s m sold seller minPrice)) m)
          = Some (currentPrice md)"
    by (simp add: b updateUserPortfolio_frame recorded_trade[OF h(1)])
  show "map_option volume24h (marketDataMap (snd (sellTokens now s m sold seller minPrice)) m)
          = Some (fadd (volume24h md) (fmul sold (currentPrice md)))"
    by (simp add: b updateUserPortfolio_frame recorded_trade[OF h(1)])
  assume q: "sold < quantity a"
  have e: "findAsset (getUserPortfolio (snd (sellTokens now s m sold seller minPrice)) seller) m
         = Some (revalue
             (marketDataMap (updateMarketDataAfterTrade now s m sold Sell (currentPrice md)) m)
             (applyTrade Sell sold (currentPrice md) a))"
    using h(1-3) q h(5) by (rule sellTokens_entry)
  show "map_option quantity
          (findAsset (getUserPortfolio (snd (sellTokens now s m sold seller minPrice)) seller) m)
        = Some (fsub (quantity a) sold)"
    using q by (simp add: e quantity_sell_kept)
  show "map_option averagePrice
          (findAsset (getUserPortfolio (snd (sellTokens now s m sold seller minPrice)) seller) m)
        = Some (averagePrice a)"
    by (simp add: e averagePrice_sell)
qed

theorem market_orders_fill_at_current_price_witness:
  "marketDataMap buyerA rolex1 \<noteq> None
   \<and> programKey initialEngine = Some ''P''
   \<and> \<not> exceeds 180 (Some 200)
   \<and> fst (buyTokens 1 initialEngine rolex1 250 ''A'' (Some 200))
       = Inr [\<lparr>keys = [], programId = ''P'', data = []\<rparr>]
   \<and> map_option volume24h
       (marketDataMap (snd (buyTokens 1 initialEngine rolex1 250 ''A'' (Some 200))) rolex1)
     = Some 47800
   \<and> map_option quantity
       (findAsset (getUserPortfolio
          (snd (buyTokens 1 initialEngine rolex1 250 ''A'' (Some 200))) ''A'') rolex1)
     = Some 250
   \<and> map_option averagePrice
       (findAsset (getUserPortfolio
          (snd (buyTokens 1 initialEngine rolex1 250 ''A'' (Some 200))) ''A'') rolex1)
     = Some 180
   \<and> \<not> below 180 (Some 150)
   \<and> fst (sellTokens 2 buyerA rolex1 100 ''A'' (Some 150))
       = Inr [\<lparr>keys = [], programId = ''P'', data = []\<rparr>]
   \<and> map_option volume24h
       (marketDataMap (snd (sellTokens 2 buyerA rolex1 100 ''A'' (Some 150))) rolex1)
     = Some 65800
   \<and> map_option quantity
       (findAsset (getUserPortfolio
          (snd (sellTokens 2 buyerA rolex1 100 ''A'' (Some 150))) ''A'') rolex1)
     = Some 150
   \<and> map_option averagePrice
       (findAsset (getUserPortfolio
          (snd (sellTokens 2 buyerA rolex1 100 ''A'' (Some 150))) ''A'') rolex1)
     = Some 180"
proof -
  let ?md = "\<lparr>md_assetMint = rolex1, currentPrice = 180,
       priceChange24h = rd (52 / 10), priceChangePercentage24h = rd (36 / 10),
       volume24h = 2800,
       marketCap = 18000000, circulatingSupply = 100000, totalSupply = 100000,
       high24h = 185, low24h = 175, lastUpdated = 0\<rparr>"
  let ?mdA = "\<lparr>md_assetMint = rolex1, currentPrice = 180,
       priceChange24h = rd (52 / 10), priceChangePercentage24h = rd (36 / 10),
       volume24h = 47800,
       marketCap = 18000000, circulatingSupply = 100000, totalSupply = 100000,
       high24h = 185, low24h = 175, lastUpdated = 1\<rparr>"
  let ?a = "\<lparr>assetId = rolex1, mint = rolex1, quantity = 250, averagePrice = 180,
       currentValue = 45000, pnl = 0, pnlPercentage = 0\<rparr>"
  have e: "\<not> exceeds 180 (Some 200)" "\<not> below 180 (Some 150)"
    by (simp_all add: exceeds_def below_def)
  have hb: "marketDataMap initialEngine rolex1 = Some ?md
            \<and> \<not> exceeds (currentPrice ?md) (Some 200)
            \<and> programKey initialEngine = Some ''P''"
    using e by (simp add: initialEngine_rolex1 initialEngine_rest)
  have hs: "marketDataMap buyerA rolex1 = Some ?mdA
            \<and> \<not> below (currentPrice ?mdA) (Some 150)
            \<and> findAsset (getUserPortfolio buyerA ''A'') rolex1 = Some ?a
            \<and> 100 \<le> quantity ?a
            \<and> programKey buyerA = Some ''P''"
    using e by (simp add: buyerA_market buyerA_position buyerA_programKey)
  note t = market_orders_fill_at_current_price
  have buy: "fst (buyTokens 1 initialEngine rolex1 250 ''A'' (Some 200))
               = Inr [\<lparr>keys = [], programId = ''P'', data = []\<rparr>]
     \<and> map_option volume24h
         (marketDataMap (snd (buyTokens 1 initialEngine rolex1 250 ''A'' (Some 200))) rolex1)
       = Some (fadd (volume24h ?md) (fmul 250 (currentPrice ?md)))
     \<and> (0 < quantity (positionOrNew initialEngine ''A'' rolex1) + 250 \<longrightarrow>
          map_option quantity
            (findAsset (getUserPortfolio
               (snd (buyTokens 1 initialEngine rolex1 250 ''A'' (Some 200))) ''A'') rolex1)
          = Some (fadd (quantity (positionOrNew initialEngine ''A'' rolex1)) 250)
        \<and> map_option averagePrice
            (findAsset (getUserPortfolio
               (snd (buyTokens 1 initialEngine rolex1 250 ''A'' (Some 200))) ''A'') rolex1)
          = Some (fdiv (fadd (fmul (quantity (positionOrNew initialEngine ''A'' rolex1))
                                (averagePrice (positionOrNew initialEngine ''A'' rolex1)))
                          (fmul 250 (currentPrice ?md)))
                    (fadd (quantity (positionOrNew initialEngine ''A'' rolex1)) 250)))"
    using t[where s = initialEngine and m = rolex1 and maxPrice = "Some 200" and now = 1
        and qty = 250 and buyer = "''A''", THEN conjunct1, rule_format, OF hb]
    by auto
  have sell: "fst (sellTokens 2 buyerA rolex1 100 ''A'' (Some 150))
               = Inr [\<lparr>keys = [], programId = ''P'', data = []\<rparr>]
     \<and> map_option volume24h
         (marketDataMap (snd (sellTokens 2 buyerA rolex1 100 ''A'' (Some 150))) rolex1)
       = Some (fadd (volume24h ?mdA) (fmul 100 (currentPrice ?mdA)))
     \<and> (100 < quantity ?a \<longrightarrow>
          map_option quantity
            (findAsset (getUserPortfolio
               (snd (sellTokens 2 buyerA rolex1 100 ''A'' (Some 150))) ''A'') rolex1)
          = Some (fsub (quantity ?a) 100)
        \<and> map_option averagePrice
            (findAsset (getUserPortfolio
               (snd (sellTokens 2 buyerA rolex1 100 ''A'' (Some 150))) ''A'') rolex1)
          = Some (averagePrice ?a))"
    using t[where s = buyerA and m = rolex1 and minPrice = "Some 150" and now = 2
        and sold = 100 and seller = "''A''", THEN conjunct2, rule_format, OF hs]
    by auto
  have n: "marketDataMap buyerA rolex1 \<noteq> None"
    by (simp add: buyerA_market)
  show ?thesis
    using buy sell e n
    by (simp add: initialEngine_no_position newAsset_def initialEngine_rest
        fadd_def fsub_def fmul_def fdiv_def)
qed

text \<open>
  The claim as stated lets a market buy against an empty book fail. With no order
  stored, a buy of 100,000 tokens succeeds: the buyer holds 100,000 tokens at 180 and
  the volume has grown by 18,000,000.
\<close>

theorem market_buy_on_empty_book_fills:
  "orders initialEngine = Map.empty
   \<and> fst (buyTokens 1 initialEngine rolex1 100000 ''A'' None)
       = Inr [\<lparr>keys = [], programId = ''P'', data = []\<rparr>]
   \<and> map_option quantity
       (findAsset (getUserPortfolio
          (snd (buyTokens 1 initialEngine rolex1 100000 ''A'' None)) ''A'') rolex1)
     = Some 100000
   \<and> map_option averagePrice
       (findAsset (getUserPortfolio
          (snd (buyTokens 1 initialEngine rolex1 100000 ''A'' None)) ''A'') rolex1)
     = Some 180
   \<and> map_option volume24h
       (marketDataMap (snd (buyTokens 1 initialEngine rolex1 100000 ''A'' None)) rolex1)
     = Some 18002800"
proof -
  have z: "0 < quantity (positionOrNew initialEngine ''A'' rolex1) + 100000"
    by (simp add: initialEngine_no_position newAsset_def)
  have b: "buyTokens 1 initialEngine rolex1 100000 ''A'' None =
             (Inr [\<lparr>keys = [], programId = ''P'', data = []\<rparr>],
              updateUserPortfolio
                (updateMarketDataAfterTrade 1 initialEngine rolex1 100000 Buy 180)
                ''A'' rolex1 100000 180 Buy)"
    using buyTokens_success[OF initialEngine_rolex1 not_exceeds_None initialEngine_rest(3)]
    by simp
  have v: "map_option volume24h
       (marketDataMap (snd (buyTokens 1 initialEngine rolex1 100000 ''A'' None)) rolex1)
     = Some 18002800"
    unfolding b snd_conv
    by (simp add: updateUserPortfolio_frame recorded_trade[OF initialEngine_rolex1]
        fadd_def fmul_def)
  have f: "fst (buyTokens 1 initialEngine rolex1 100000 ''A'' None)
       = Inr [\<lparr>keys = [], programId = ''P'', data = []\<rparr>]"
    unfolding b by simp
  show ?thesis
    using buyTokens_position[OF initialEngine_rolex1 not_exceeds_None initialEngine_rest(3) z,
        of 1] v f
    by (simp add: initialEngine_rest initialEngine_no_position newAsset_def
        fadd_def fmul_def fdiv_def)
qed

text \<open>
  Claim C4. For every account, every asset and every finite sequence of buy and sell
  fills applied to the account's position, the position quantity is at least 0 after
  every step of the sequence. It holds for every starting state and for fills of any
  quantity and price, negative ones included, and for every asset \<open>m'\<close> of the account:
  the final filter of \<open>updateUserPortfolio\<close> keeps only entries of positive quantity.
\<close>

theorem quantity_never_negative:
  "\<forall>s' \<in> set (applyFills s w m fills). 0 \<le> quantity (positionOrNew s' w m')"
proof
  fix s'
  assume "s' \<in> set (applyFills s w m fills)"
  then obtain s0 qty price side where "s' = updateUserPortfolio s0 w m qty price side"
    using applyFills_member by blast
  then show "0 \<le> quantity (positionOrNew s' w m')"
    by (simp add: held_nonneg_after_update)
qed

theorem quantity_never_negative_witness:
  "afterOverSell \<in> set (applyFills (newEngine None) ''alice'' ''M'' exampleFills)
   \<and> 0 \<le> quantity (positionOrNew afterOverSell ''alice'' ''M'')
   \<and> findAsset (getUserPortfolio afterOverSell ''alice'') ''M'' = None"
proof -
  have m: "afterOverSell \<in> set (applyFills (newEngine None) ''alice'' ''M'' exampleFills)"
    by (simp add: exampleFills_def afterOverSell_def aliceHolds100_def Let_def)
  have n: "findAsset (getUserPortfolio afterOverSell ''alice'') ''M'' = None"
    by (simp add: afterOverSell_def aliceHolds100_def eval_defs)
  from m quantity_never_negative[of "newEngine None" "''alice''" "''M''" exampleFills "''M''"]
  have "0 \<le> quantity (positionOrNew afterOverSell ''alice'' ''M'')"
    by blast
  with m n show ?thesis by blast
qed

text \<open>
  Claim C5, as the code has it. A buy fill of quantity \<open>qty\<close> at price \<open>price\<close> on a
  position of prior quantity \<open>oldQty\<close> and prior average cost \<open>oldAvg\<close> leaves the position
  with the quantity \<open>oldQty + qty\<close> and the average cost
  \<open>(oldQty * oldAvg + qty * price) / (oldQty + qty)\<close> as binary64 arithmetic computes
  them, every sum, product and quotient rounded to the nearest number. The prior position
  is the stored entry, or the zero entry when there is none. The hypothesis
  \<open>0 < oldQty + qty\<close> holds for every fill (a positive quantity) on every position (a
  quantity that is not negative).
\<close>

theorem buy_weighted_average_cost:
  assumes "0 < quantity (positionOrNew s w m) + qty"
  shows "map_option quantity
           (findAsset (getUserPortfolio (updateUserPortfolio s w m qty price Buy) w) m)
         = Some (fadd (quantity (positionOrNew s w m)) qty)
       \<and> map_option averagePrice
           (findAsset (getUserPortfolio (updateUserPortfolio s w m qty price Buy) w) m)
         = Some (fdiv (fadd (fmul (quantity (positionOrNew s w m))
                               (averagePrice (positionOrNew s w m)))
                         (fmul qty price))
                   (fadd (quantity (positionOrNew s w m)) qty))"
proof -
  from assms have "0 < quantity (applyTrade Buy qty price (positionOrNew s w m))"
    by (simp add: buy_kept_iff)
  then show ?thesis
    by (simp add: position_after_kept quantity_buy averagePrice_buy)
qed

theorem buy_weighted_average_cost_witness:
  "0 < quantity (positionOrNew aliceHolds100 ''alice'' ''M'') + 50
   \<and> map_option quantity
       (findAsset (getUserPortfolio
          (updateUserPortfolio aliceHolds100 ''alice'' ''M'' 50 150 Buy) ''alice'') ''M'')
     = Some 150
   \<and> map_option averagePrice
       (findAsset (getUserPortfolio
          (updateUserPortfolio aliceHolds100 ''alice'' ''M'' 50 150 Buy) ''alice'') ''M'')
     = Some 170"
proof -
  have h: "0 < quantity (positionOrNew aliceHolds100 ''alice'' ''M'') + 50"
    by (simp add: aliceHolds100_position)
  show ?thesis
    using h buy_weighted_average_cost[OF h, of 150]
    by (simp add: aliceHolds100_position fadd_def fmul_def fdiv_def)
qed

text \<open>
  The claim as stated gives the exact quotient and the exact sum. A position of 1 token
  at an average cost of 1 that buys 2 tokens at 2 gets the average cost
  1.6666666666666667, the number next to 5/3; a position of \<open>2 ^ 53\<close> tokens that buys 1
  token still holds \<open>2 ^ 53\<close> tokens.
\<close>

theorem weighted_average_is_rounded:
  "quantity (positionOrNew bobHolds1 ''bob'' ''M'') = 1
   \<and> averagePrice (positionOrNew bobHolds1 ''bob'' ''M'') = 1
   \<and> map_option averagePrice
       (findAsset (getUserPortfolio
          (updateUserPortfolio bobHolds1 ''bob'' ''M'' 2 2 Buy) ''bob'') ''M'')
     = Some (7505999378950827 / 4503599627370496)
   \<and> (1 * 1 + 2 * 2) / (1 + 2) \<noteq> (7505999378950827 / 4503599627370496 :: real)
   \<and> quantity (positionOrNew bobHoldsMany ''bob'' ''M'') = 9007199254740992
   \<and> map_option quantity
       (findAsset (getUserPortfolio
          (updateUserPortfolio bobHoldsMany ''bob'' ''M'' 1 1 Buy) ''bob'') ''M'')
     = Some 9007199254740992"
proof -
  have a: "0 < quantity (applyTrade Buy 2 2 (positionOrNew bobHolds1 ''bob'' ''M''))"
    by (simp add: buy_kept_iff bobHolds1_position)
  have b: "0 < quantity (applyTrade Buy 1 1 (positionOrNew bobHoldsMany ''bob'' ''M''))"
    by (simp add: buy_kept_iff bobHoldsMany_position)
  have "map_option averagePrice
       (findAsset (getUserPortfolio
          (updateUserPortfolio bobHolds1 ''bob'' ''M'' 2 2 Buy) ''bob'') ''M'')
     = Some (rd (5 / 3))"
    by (simp add: position_after_kept[OF a] averagePrice_buy bobHolds1_position
        fadd_def fmul_def fdiv_def)
  moreover have "map_option quantity
       (findAsset (getUserPortfolio
          (updateUserPortfolio bobHoldsMany ''bob'' ''M'' 1 1 Buy) ''bob'') ''M'')
     = Some (rd 9007199254740993)"
    by (simp add: position_after_kept[OF b] quantity_buy bobHoldsMany_position fadd_def)
  ultimately show ?thesis
    by (simp add: rd_five_thirds rd_2_53_plus_1 bobHolds1_position bobHoldsMany_position)
qed

text \<open>
  Claim C6, as the code has it. After a trade at price \<open>p\<close> the market cap of the
  asset is the product of \<open>p\<close> and its total supply, in the market data of the trading
  engine and in the price point \<open>updateAssetPrice\<close> appends.
\<close>

theorem marketCap_uses_totalSupply:
  "(\<forall>md. marketDataMap s m = Some md \<longrightarrow>
      map_option marketCap (marketDataMap (updateMarketDataAfterTrade now s m qty side price) m)
        = Some (fmul price (totalSupply md)))
   \<and> (\<forall>asset. getAssetByMint a key = Some asset \<longrightarrow>
        lastMarketCap (updateAssetPrice now a key price) key
          = Some (fmul price (ca_totalSupply asset)))"
  by (simp add: updateAssetPrice_lastMarketCap)
     (simp add: updateMarketDataAfterTrade_def Let_def)

theorem marketCap_uses_totalSupply_witness:
  "marketDataMap initialEngine rolex1 \<noteq> None
   \<and> map_option marketCap
       (marketDataMap (updateMarketDataAfterTrade 2000 initialEngine rolex1 10 Sell 170) rolex1)
     = Some 17000000
   \<and> getAssetByMint managerWithAsset ''TestMint'' \<noteq> None
   \<and> lastMarketCap (updateAssetPrice 2000 managerWithAsset ''TestMint'' 170) ''TestMint''
     = Some 17000000"
  using marketCap_uses_totalSupply[where s = initialEngine and m = rolex1 and now = 2000
      and qty = 10 and side = Sell and price = 170 and a = managerWithAsset
      and key = "''TestMint''"]
  by (simp add: initialEngine_rolex1 managerWithAsset_asset fmul_def)

text \<open>
  The claim as stated multiplies by the circulating supply. For an asset added with a
  total supply of 100,000 and a circulating supply of 60,000, a price of 200 gives the
  market cap 20,000,000, not 12,000,000.
\<close>

theorem marketCap_not_circulating:
  "map_option ca_circulatingSupply
     (getAssetByMint (updateAssetPrice 2000 managerWithAsset ''TestMint'' 200) ''TestMint'')
     = Some 60000
   \<and> lastMarketCap (updateAssetPrice 2000 managerWithAsset ''TestMint'' 200) ''TestMint''
     = Some 20000000"
  by (simp add: circulating_after_update managerWithAsset_asset
      updateAssetPrice_lastMarketCap[OF managerWithAsset_asset] fmul_def)

text \<open>
  Claim C7. For an order that is no longer pending (executed, cancelled or failed), a
  cancel request of the account that owns the order raises \<open>ORDER_NOT_CANCELLABLE\<close> and
  changes no state; nor does the cancel request of any other account change the state.
\<close>

theorem cancel_terminal_order_rejected:
  assumes "orders s orderId = Some order" and "ord_status order \<noteq> PENDING"
  shows "cancelOrder s orderId (ord_userId order) = (Inl ORDER_NOT_CANCELLABLE, s)
       \<and> snd (cancelOrder s orderId user) = s"
  using assms by (simp add: cancelOrder_def)

theorem cancel_terminal_order_rejected_witness:
  "orders cancelledOrderState ''o1'' \<noteq> None
   \<and> map_option ord_status (orders cancelledOrderState ''o1'') = Some CANCELLED
   \<and> map_option ord_userId (orders cancelledOrderState ''o1'') = Some ''alice''
   \<and> cancelOrder cancelledOrderState ''o1'' ''alice''
       = (Inl ORDER_NOT_CANCELLABLE, cancelledOrderState)
   \<and> snd (cancelOrder cancelledOrderState ''o1'' ''bob'') = cancelledOrderState"
  using cancel_terminal_order_rejected[OF cancelledOrderState_order, of "''bob''"]
  by (simp add: cancelledOrderState_order)

text \<open>
  Claim C8. A sell fill that leaves a positive quantity leaves the average cost basis
  of the position unchanged; a sell fill that takes the quantity to 0 leaves no entry,
  and so no average cost, for the asset in the stored portfolio.
\<close>

theorem sell_keeps_average_cost:
  assumes "distinctMints (portfolios s w)"
  shows "(qty < quantity (positionOrNew s w m) \<longrightarrow>
            map_option averagePrice
              (findAsset (getUserPortfolio (updateUserPortfolio s w m qty price Sell) w) m)
              = Some (averagePrice (positionOrNew s w m))
          \<and> map_option quantity
              (findAsset (getUserPortfolio (updateUserPortfolio s w m qty price Sell) w) m)
              = Some (fsub (quantity (positionOrNew s w m)) qty))
       \<and> (quantity (positionOrNew s w m) \<le> qty \<longrightarrow>
            findAsset (getUserPortfolio (updateUserPortfolio s w m qty price Sell) w) m = None)"
proof (intro conjI impI)
  assume lt: "qty < quantity (positionOrNew s w m)"
  then have k: "0 < quantity (applyTrade Sell qty price (positionOrNew s w m))"
    by (simp add: sell_kept_iff)
  show "map_option averagePrice
              (findAsset (getUserPortfolio (updateUserPortfolio s w m qty price Sell) w) m)
              = Some (averagePrice (positionOrNew s w m))"
    by (simp add: position_after_kept[OF k] averagePrice_sell)
  show "map_option quantity
              (findAsset (getUserPortfolio (updateUserPortfolio s w m qty price Sell) w) m)
              = Some (fsub (quantity (positionOrNew s w m)) qty)"
    using lt by (simp add: position_after_kept[OF k] quantity_sell_kept)
next
  assume "quantity (positionOrNew s w m) \<le> qty"
  then have "\<not> 0 < quantity (applyTrade Sell qty price (positionOrNew s w m))"
    by (simp add: sell_kept_iff)
  with assms show "findAsset (getUserPortfolio (updateUserPortfolio s w m qty price Sell) w) m = None"
    by (rule position_after_dropped)
qed

theorem sell_keeps_average_cost_witness:
  "distinctMints (portfolios aliceHolds100 ''alice'')
   \<and> map_option averagePrice
       (findAsset (getUserPortfolio
          (updateUserPortfolio aliceHolds100 ''alice'' ''M'' 40 200 Sell) ''alice'') ''M'')
     = Some 180
   \<and> map_option quantity
       (findAsset (getUserPortfolio
          (updateUserPortfolio aliceHolds100 ''alice'' ''M'' 40 200 Sell) ''alice'') ''M'')
     = Some 60
   \<and> findAsset (getUserPortfolio
          (updateUserPortfolio aliceHolds100 ''alice'' ''M'' 100 200 Sell) ''alice'') ''M''
     = None"
proof -
  have h: "distinctMints (portfolios aliceHolds100 ''alice'')"
    by (simp add: aliceHolds100_def eval_defs)
  show ?thesis
    using h sell_keeps_average_cost[OF h, of 40 "''M''" 200]
      sell_keeps_average_cost[OF h, of 100 "''M''" 200]
    by (simp add: aliceHolds100_position fsub_def)
qed

text \<open>
  Claim C9. \<open>cancelOrder\<close> on an order id that is not in the order store returns
  \<open>false\<close>, raises nothing and changes no state, whereas a request by an account that
  does not own the order and a request on an order that is not pending raise
  \<open>UNAUTHORIZED\<close> and \<open>ORDER_NOT_CANCELLABLE\<close>.
\<close>

theorem cancelOrder_absent_returns_false:
  "(orders s orderId = None \<longrightarrow> cancelOrder s orderId user = (Inr False, s))
   \<and> (\<forall>order. orders s orderId = Some order \<and> ord_userId order \<noteq> user \<longrightarrow>
         cancelOrder s orderId user = (Inl UNAUTHORIZED, s))
   \<and> (\<forall>order. orders s orderId = Some order \<and> ord_userId order = user
         \<and> ord_status order \<noteq> PENDING \<longrightarrow>
         cancelOrder s orderId user = (Inl ORDER_NOT_CANCELLABLE, s))"
  by (simp add: cancelOrder_def)

theorem cancelOrder_absent_returns_false_witness:
  "orders pendingOrderState ''o2'' = None
   \<and> cancelOrder pendingOrderState ''o2'' ''alice'' = (Inr False, pendingOrderState)
   \<and> cancelOrder pendingOrderState ''o1'' ''bob'' = (Inl UNAUTHORIZED, pendingOrderState)
   \<and> cancelOrder cancelledOrderState ''o1'' ''alice''
       = (Inl ORDER_NOT_CANCELLABLE, cancelledOrderState)"
  using cancelOrder_absent_returns_false[of pendingOrderState "''o2''" "''alice''"]
    cancelOrder_absent_returns_false[of pendingOrderState "''o1''" "''bob''"]
    cancelOrder_absent_returns_false[of cancelledOrderState "''o1''" "''alice''"]
  by (simp add: pendingOrderState_order cancelledOrderState_order pendingOrderState_no_o2)

text \<open>
  Claim C10. After every portfolio update caused by a buy or a sell the stored
  portfolio holds no entry of quantity 0 or less: an entry whose quantity reaches 0 is
  removed, so a position sold in full is absent afterwards instead of being an entry
  of quantity 0.
\<close>

theorem no_nonpositive_entry_stored:
  "(case portfolios (updateUserPortfolio s w m qty price side) w of
      None \<Rightarrow> False
    | Some p \<Rightarrow> \<forall>a\<in>set (assets p). 0 < quantity a)
   \<and> (distinctMints (portfolios s w) \<and> quantity (positionOrNew s w m) \<le> qty \<longrightarrow>
        findAsset (getUserPortfolio (updateUserPortfolio s w m qty price Sell) w) m = None)"
proof (intro conjI impI)
  show "case portfolios (updateUserPortfolio s w m qty price side) w of
          None \<Rightarrow> False
        | Some p \<Rightarrow> \<forall>a\<in>set (assets p). 0 < quantity a"
    using stored_positive[of s w m qty price side] by auto
next
  assume h: "distinctMints (portfolios s w) \<and> quantity (positionOrNew s w m) \<le> qty"
  then have "\<not> 0 < quantity (applyTrade Sell qty price (positionOrNew s w m))"
    by (simp add: sell_kept_iff)
  with h show "findAsset (getUserPortfolio (updateUserPortfolio s w m qty price Sell) w) m = None"
    by (simp add: position_after_dropped)
qed

theorem no_nonpositive_entry_stored_witness:
  "distinctMints (portfolios aliceHoldsTwo ''alice'')
   \<and> quantity (positionOrNew aliceHoldsTwo ''alice'' ''M'') \<le> 100
   \<and> map_option (\<lambda>p. map quantity (assets p))
       (portfolios (updateUserPortfolio aliceHoldsTwo ''alice'' ''M'' 100 200 Sell) ''alice'')
     = Some [30]
   \<and> findAsset (getUserPortfolio
        (updateUserPortfolio aliceHoldsTwo ''alice'' ''M'' 100 200 Sell) ''alice'') ''M'' = None"
proof -
  have h: "distinctMints (portfolios aliceHoldsTwo ''alice'')
           \<and> quantity (positionOrNew aliceHoldsTwo ''alice'' ''M'') \<le> 100"
    by (simp add: aliceHoldsTwo_def aliceHolds100_def eval_defs)
  have e: "map_option (\<lambda>p. map quantity (assets p))
       (portfolios (updateUserPortfolio aliceHoldsTwo ''alice'' ''M'' 100 200 Sell) ''alice'')
     = Some [30]"
    by (simp add: aliceHoldsTwo_def aliceHolds100_def eval_defs)
  from h no_nonpositive_entry_stored[of aliceHoldsTwo "''alice''" "''M''" 100 200 Sell]
  have "findAsset (getUserPortfolio
        (updateUserPortfolio aliceHoldsTwo ''alice'' ''M'' 100 200 Sell) ''alice'') ''M'' = None"
    by blast
  with h e show ?thesis by blast
qed

end
